theory Spec2Isabelle
  imports Main "HOL-Library.Word"
begin

unbundle bit_operations_syntax

section \<open>JSON values as the server and the client see them\<close>

text \<open>
  A request body, a persisted record and a telemetry file are JSON documents. Numbers are
  the integers (event counters, lengths); a JavaScript \<open>undefined\<close> is the absence
  of a value (\<open>None\<close> of an option). An object is its list of own properties in
  insertion order; a property is looked up by its first occurrence. Strings are lists of
  code units below 256.
\<close>

datatype json =
    JNull
  | JBool bool
  | JNum int
  | JStr string
  | JArr "json list"
  | JObj "(string \<times> json) list"

datatype error = TypeError

text \<open>JavaScript truthiness of a defined value.\<close>

fun truthy :: "json \<Rightarrow> bool" where
  "truthy JNull = False"
| "truthy (JBool b) = b"
| "truthy (JNum n) = (n \<noteq> 0)"
| "truthy (JStr s) = (s \<noteq> [])"
| "truthy (JArr xs) = True"
| "truthy (JObj kvs) = True"

text \<open>\<open>obj[k] = v\<close>: an existing property keeps its place, a new one is appended.\<close>

fun setProp :: "string \<Rightarrow> json \<Rightarrow> (string \<times> json) list \<Rightarrow> (string \<times> json) list" where
  "setProp k v [] = [(k, v)]"
| "setProp k v (p # kvs) = (if fst p = k then (k, v) # kvs else p # setProp k v kvs)"

text \<open>\<open>delete obj[k]\<close>.\<close>

definition deleteProp :: "string \<Rightarrow> (string \<times> json) list \<Rightarrow> (string \<times> json) list" where
  "deleteProp k kvs = filter (\<lambda>p. fst p \<noteq> k) kvs"

text \<open>
  \<open>k in v\<close> for a name \<open>k\<close> that is neither an array index, \<open>length\<close> nor a
  name on \<open>Object.prototype\<close> (all names the server tests are of this kind): a
  primitive on the right raises a TypeError.
\<close>

fun hasProp :: "string \<Rightarrow> json \<Rightarrow> error + bool" where
  "hasProp k (JObj kvs) = Inr (k \<in> set (map fst kvs))"
| "hasProp k (JArr xs) = Inr False"
| "hasProp k v = Inl TypeError"

subsection \<open>\<open>JSON.stringify\<close> without indentation\<close>

definition hexDigit :: "nat \<Rightarrow> char" where
  "hexDigit n = (''0123456789abcdef'') ! (n mod 16)"

definition escapeChar :: "char \<Rightarrow> string" where
  "escapeChar c =
     (if c = CHR 0x22 then [CHR 0x5C, CHR 0x22]
      else if c = CHR 0x5C then [CHR 0x5C, CHR 0x5C]
      else if c = CHR 0x08 then [CHR 0x5C, CHR ''b'']
      else if c = CHR 0x0C then [CHR 0x5C, CHR ''f'']
      else if c = CHR 0x0A then [CHR 0x5C, CHR ''n'']
      else if c = CHR 0x0D then [CHR 0x5C, CHR ''r'']
      else if c = CHR 0x09 then [CHR 0x5C, CHR ''t'']
      else if (of_char c :: nat) < 32
        then [CHR 0x5C, CHR ''u'', CHR ''0'', CHR ''0'',
              hexDigit (of_char c div 16), hexDigit (of_char c)]
      else [c])"

definition quote :: "string \<Rightarrow> string" where
  "quote s = CHR 0x22 # concat (map escapeChar s) @ [CHR 0x22]"

fun showNat :: "nat \<Rightarrow> string" where
  "showNat n = (if n < 10 then [hexDigit n] else showNat (n div 10) @ [hexDigit (n mod 10)])"

declare showNat.simps [simp del]

definition showInt :: "int \<Rightarrow> string" where
  "showInt i = (if i < 0 then CHR ''-'' # showNat (nat (- i)) else showNat (nat i))"

fun commaSep :: "string list \<Rightarrow> string" where
  "commaSep [] = []"
| "commaSep [x] = x"
| "commaSep (x # y # ys) = x @ CHR '','' # commaSep (y # ys)"

fun stringify :: "json \<Rightarrow> string" where
  "stringify JNull = ''null''"
| "stringify (JBool b) = (if b then ''true'' else ''false'')"
| "stringify (JNum n) = showInt n"
| "stringify (JStr s) = quote s"
| "stringify (JArr xs) = CHR ''['' # commaSep (map stringify xs) @ '']''"
| "stringify (JObj kvs) =
     CHR ''{'' # commaSep (map (\<lambda>p. quote (fst p) @ CHR '':'' # stringify (snd p)) kvs) @ ''}''"

section \<open>SHA-256 (the digest behind \<open>crypto.createHash('sha256')\<close>)\<close>

type_synonym u32 = "32 word"
type_synonym hashState = "u32 \<times> u32 \<times> u32 \<times> u32 \<times> u32 \<times> u32 \<times> u32 \<times> u32"

definition rotr :: "nat \<Rightarrow> u32 \<Rightarrow> u32" where
  "rotr n x = drop_bit n x OR push_bit (32 - n) x"

fun chunks :: "nat \<Rightarrow> 'a list \<Rightarrow> 'a list list" where
  "chunks n [] = []"
| "chunks n (x # xs) = (if n = 0 then [] else take n (x # xs) # chunks n (drop n (x # xs)))"

text \<open>Constants are written as runs of eight hexadecimal digits.\<close>

definition hexValue :: "char \<Rightarrow> nat" where
  "hexValue c = (let n = (of_char c :: nat) in if n \<ge> 97 then n - 87 else n - 48)"

definition hexWord :: "string \<Rightarrow> u32" where
  "hexWord s = foldl (\<lambda>w c. push_bit 4 w + word_of_nat (hexValue c)) 0 s"

definition K256 :: "u32 list" where
  "K256 = map hexWord (chunks 8
      (''428a2f9871374491b5c0fbcfe9b5dba53956c25b59f111f1923f82a4ab1c5ed5'' @
       ''d807aa9812835b01243185be550c7dc372be5d7480deb1fe9bdc06a7c19bf174'' @
       ''e49b69c1efbe47860fc19dc6240ca1cc2de92c6f4a7484aa5cb0a9dc76f988da'' @
       ''983e5152a831c66db00327c8bf597fc7c6e00bf3d5a7914706ca635114292967'' @
       ''27b70a852e1b21384d2c6dfc53380d13650a7354766a0abb81c2c92e92722c85'' @
       ''a2bfe8a1a81a664bc24b8b70c76c51a3d192e819d6990624f40e3585106aa070'' @
       ''19a4c1161e376c082748774c34b0bcb5391c0cb34ed8aa4a5b9cca4f682e6ff3'' @
       ''748f82ee78a5636f84c878148cc7020890befffaa4506cebbef9a3f7c67178f2''))"

definition sha256Init :: hashState where
  "sha256Init = (hexWord ''6a09e667'', hexWord ''bb67ae85'', hexWord ''3c6ef372'', hexWord ''a54ff53a'',
                 hexWord ''510e527f'', hexWord ''9b05688c'', hexWord ''1f83d9ab'', hexWord ''5be0cd19'')"

definition ssig0 :: "u32 \<Rightarrow> u32" where
  "ssig0 x = rotr 7 x XOR rotr 18 x XOR drop_bit 3 x"

definition ssig1 :: "u32 \<Rightarrow> u32" where
  "ssig1 x = rotr 17 x XOR rotr 19 x XOR drop_bit 10 x"

definition bsig0 :: "u32 \<Rightarrow> u32" where
  "bsig0 x = rotr 2 x XOR rotr 13 x XOR rotr 22 x"

definition bsig1 :: "u32 \<Rightarrow> u32" where
  "bsig1 x = rotr 6 x XOR rotr 11 x XOR rotr 25 x"

definition ch :: "u32 \<Rightarrow> u32 \<Rightarrow> u32 \<Rightarrow> u32" where
  "ch x y z = (x AND y) XOR (NOT x AND z)"

definition maj :: "u32 \<Rightarrow> u32 \<Rightarrow> u32 \<Rightarrow> u32" where
  "maj x y z = (x AND y) XOR (x AND z) XOR (y AND z)"

text \<open>A string is hashed as its UTF-8 bytes.\<close>

definition utf8 :: "string \<Rightarrow> 8 word list" where
  "utf8 s = concat (map (\<lambda>c. let n = (of_char c :: nat) in
       if n < 128 then [word_of_nat n]
       else [word_of_nat (192 + n div 64), word_of_nat (128 + n mod 64)]) s)"

definition pad :: "8 word list \<Rightarrow> 8 word list" where
  "pad m = (let l = length m; k = (119 - l mod 64) mod 64 in
     m @ [0x80] @ replicate k 0 @
     map (\<lambda>i. ucast (drop_bit (8 * (7 - i)) (word_of_nat (8 * l) :: 64 word))) [0..<8])"

fun be32 :: "8 word list \<Rightarrow> u32" where
  "be32 [a, b, c, d] =
     push_bit 24 (ucast a) OR push_bit 16 (ucast b) OR push_bit 8 (ucast c) OR ucast d"
| "be32 bs = 0"

fun schedule :: "nat \<Rightarrow> u32 list \<Rightarrow> u32 list" where
  "schedule 0 w = w"
| "schedule (Suc n) w = (let l = length w in
     schedule n (w @ [ssig1 (w ! (l - 2)) + w ! (l - 7) + ssig0 (w ! (l - 15)) + w ! (l - 16)]))"

fun sha256Round :: "hashState \<Rightarrow> u32 \<times> u32 \<Rightarrow> hashState" where
  "sha256Round (a, b, c, d, e, f, g, h) (k, w) =
     (let t1 = h + bsig1 e + ch e f g + k + w; t2 = bsig0 a + maj a b c
      in (t1 + t2, a, b, c, d + t1, e, f, g))"

fun addState :: "hashState \<Rightarrow> hashState \<Rightarrow> hashState" where
  "addState (a, b, c, d, e, f, g, h) (a', b', c', d', e', f', g', h') =
     (a + a', b + b', c + c', d + d', e + e', f + f', g + g', h + h')"

definition compress :: "hashState \<Rightarrow> 8 word list \<Rightarrow> hashState" where
  "compress s blk =
     addState s (foldl sha256Round s (zip K256 (schedule 48 (map be32 (chunks 4 blk)))))"

definition sha256 :: "string \<Rightarrow> hashState" where
  "sha256 s = foldl compress sha256Init (chunks 64 (pad (utf8 s)))"

definition hex32 :: "u32 \<Rightarrow> string" where
  "hex32 w = map (\<lambda>i. hexDigit (unat (drop_bit (4 * (7 - i)) w AND 0xF))) [0..<8]"

fun hexDigest :: "hashState \<Rightarrow> string" where
  "hexDigest (a, b, c, d, e, f, g, h) =
     hex32 a @ hex32 b @ hex32 c @ hex32 d @ hex32 e @ hex32 f @ hex32 g @ hex32 h"


section \<open>The ingestion server (\<open>Telemetry/telemetry_server.js\<close>)\<close>

subsection \<open>Rate limiting\<close>

record rateEntry =
  count :: nat
  windowStart :: int

record response =
  status :: nat
  payload :: json

type_synonym requestCounts = "string \<rightharpoonup> rateEntry"

definition RATE_LIMIT :: nat where
  "RATE_LIMIT = 100"

definition RATE_WINDOW :: int where
  "RATE_WINDOW = 60 * 60 * 1000"

definition errorBody :: "string \<Rightarrow> json" where
  "errorBody msg = JObj [(''success'', JBool False), (''error'', JStr msg)]"

text \<open>
  \<open>rateLimit\<close> answers itself (\<open>Some\<close> response) or hands the request on
  (\<open>None\<close>, the call of \<open>next()\<close>); the map of counters is returned updated.
\<close>

definition rateLimit :: "string \<Rightarrow> int \<Rightarrow> requestCounts \<Rightarrow> response option \<times> requestCounts" where
  "rateLimit clientIP now rc =
     (case rc clientIP of
        None \<Rightarrow> (None, rc(clientIP \<mapsto> \<lparr>count = 1, windowStart = now\<rparr>))
      | Some clientData \<Rightarrow>
          if now - windowStart clientData > RATE_WINDOW
            then (None, rc(clientIP \<mapsto> clientData\<lparr>count := 1, windowStart := now\<rparr>))
          else if count clientData \<ge> RATE_LIMIT
            then (Some \<lparr>status = 429,
                        payload = errorBody ''Rate limit exceeded. Please try again later.''\<rparr>, rc)
          else (None, rc(clientIP \<mapsto> clientData\<lparr>count := count clientData + 1\<rparr>)))"

subsection \<open>Validation\<close>

datatype validationError =
    PayloadTooLarge
  | MissingField string
  | EventsNotArray
  | TooManyEvents
  | InvalidEventStructure
  | InvalidEventType json

text \<open>
  The outcome of a validation step: an exception, \<open>{valid: false, error}\<close>, or
  \<open>{valid: true}\<close> together with the data as the step has left it (the event loop
  assigns to the fields of the events it has checked).
\<close>

datatype 'a checked = Threw error | Rejected validationError | Passed 'a

definition sanitizeInput :: "json \<Rightarrow> json" where
  "sanitizeInput input =
     (case input of
        JStr s \<Rightarrow> JStr (take 1000
          (filter (\<lambda>c. c \<notin> set [CHR ''<'', CHR ''>'', CHR 0x22, CHR 0x27, CHR ''&'']) s))
      | _ \<Rightarrow> input)"

definition requiredFields :: "string list" where
  "requiredFields = [''sessionId'', ''extensionVersion'', ''vscodeVersion'', ''platform'',
                     ''weekStart'', ''events'', ''aggregatedStats'']"

definition validEventTypes :: "string list" where
  "validEventTypes = [''thought_created'', ''graph_opened'', ''suggest_related_used'',
                      ''semantic_search_used'', ''semantic_ai_graph_used'']"

text \<open>\<open>validEventTypes.includes(v)\<close>: only a string equals a string.\<close>

definition includesType :: "json \<Rightarrow> bool" where
  "includesType v = (case v of JStr s \<Rightarrow> s \<in> set validEventTypes | _ \<Rightarrow> False)"

fun firstMissing :: "string list \<Rightarrow> json \<Rightarrow> error + string option" where
  "firstMissing [] data = Inr None"
| "firstMissing (field # rest) data =
     (case hasProp field data of
        Inl e \<Rightarrow> Inl e
      | Inr present \<Rightarrow> if present then firstMissing rest data else Inr (Some field))"

text \<open>
  The body of the loop over \<open>data.events\<close>. Reading a property of \<open>null\<close> raises;
  of any other value that is not an object it gives \<open>undefined\<close>.
\<close>

fun validateEvent :: "json \<Rightarrow> json checked" where
  "validateEvent JNull = Threw TypeError"
| "validateEvent (JObj kvs) =
     (case (map_of kvs ''eventType'', map_of kvs ''timestamp'', map_of kvs ''anonymousId'') of
        (Some eventType, Some timestamp, Some anonymousId) \<Rightarrow>
          if \<not> truthy eventType \<or> \<not> truthy timestamp \<or> \<not> truthy anonymousId
            then Rejected InvalidEventStructure
          else
            let kvs1 = setProp ''eventType'' (sanitizeInput eventType) kvs;
                kvs2 = setProp ''anonymousId'' (sanitizeInput anonymousId) kvs1
            in if \<not> includesType (sanitizeInput eventType)
                 then Rejected (InvalidEventType (sanitizeInput eventType))
               else Passed (JObj kvs2)
      | _ \<Rightarrow> Rejected InvalidEventStructure)"
| "validateEvent v = Rejected InvalidEventStructure"

fun validateEvents :: "json list \<Rightarrow> json list checked" where
  "validateEvents [] = Passed []"
| "validateEvents (event # events) =
     (case validateEvent event of
        Threw e \<Rightarrow> Threw e
      | Rejected ve \<Rightarrow> Rejected ve
      | Passed event' \<Rightarrow>
          (case validateEvents events of
             Threw e \<Rightarrow> Threw e
           | Rejected ve \<Rightarrow> Rejected ve
           | Passed events' \<Rightarrow> Passed (event' # events')))"

definition validateTelemetryData :: "json \<Rightarrow> json checked" where
  "validateTelemetryData data =
     (if length (stringify data) > 500000 then Rejected PayloadTooLarge
      else case firstMissing requiredFields data of
        Inl e \<Rightarrow> Threw e
      | Inr (Some field) \<Rightarrow> Rejected (MissingField field)
      | Inr None \<Rightarrow>
          (case data of
             JObj kvs \<Rightarrow>
               (case map_of kvs ''events'' of
                  Some (JArr events) \<Rightarrow>
                    if length events > 1000 then Rejected TooManyEvents
                    else (case validateEvents events of
                            Threw e \<Rightarrow> Threw e
                          | Rejected ve \<Rightarrow> Rejected ve
                          | Passed events' \<Rightarrow>
                              Passed (JObj (setProp ''events'' (JArr events') kvs)))
                | _ \<Rightarrow> Rejected EventsNotArray)
           | _ \<Rightarrow> Rejected EventsNotArray))"

subsection \<open>Sanitization\<close>

text \<open>\<open>update\<close> of the hash accepts a string only (among JSON values).\<close>

definition hashAnonymousId :: "string \<Rightarrow> string" where
  "hashAnonymousId anonymousId = take 16 (hexDigest (sha256 anonymousId))"

definition safeFields :: "string list" where
  "safeFields = [''thoughtType'', ''hasCodeSnippet'', ''searchTermLength'', ''resultCount'']"

fun sanitizeMetadata :: "json \<Rightarrow> error + json" where
  "sanitizeMetadata (JObj kvs) =
     Inr (JObj (concat (map (\<lambda>field. case map_of kvs field of
                                        Some v \<Rightarrow> [(field, v)]
                                      | None \<Rightarrow> []) safeFields)))"
| "sanitizeMetadata (JArr xs) = Inr (JObj [])"
| "sanitizeMetadata v = Inl TypeError"

text \<open>
  The properties of an object literal that are written to a JSON file: those whose value
  is not \<open>undefined\<close>.
\<close>

fun definedProps :: "(string \<times> json option) list \<Rightarrow> (string \<times> json) list" where
  "definedProps [] = []"
| "definedProps ((k, None) # ps) = definedProps ps"
| "definedProps ((k, Some v) # ps) = (k, v) # definedProps ps"

fun sanitizeEvent :: "json \<Rightarrow> error + json" where
  "sanitizeEvent (JObj kvs) =
     (case map_of kvs ''anonymousId'' of
        Some (JStr anonymousId) \<Rightarrow>
          (case (case map_of kvs ''metadata'' of
                   None \<Rightarrow> Inr None
                 | Some metadata \<Rightarrow>
                     if truthy metadata then map_sum id Some (sanitizeMetadata metadata)
                     else Inr None) of
             Inl e \<Rightarrow> Inl e
           | Inr metadata' \<Rightarrow>
               Inr (JObj (definedProps
                 [(''eventType'', map_of kvs ''eventType''),
                  (''timestamp'', map_of kvs ''timestamp''),
                  (''anonymousId'', Some (JStr (hashAnonymousId anonymousId))),
                  (''metadata'', metadata')])))
      | _ \<Rightarrow> Inl TypeError)"
| "sanitizeEvent v = Inl TypeError"

fun sanitizeEvents :: "json list \<Rightarrow> error + json list" where
  "sanitizeEvents [] = Inr []"
| "sanitizeEvents (event # events) =
     (case sanitizeEvent event of
        Inl e \<Rightarrow> Inl e
      | Inr event' \<Rightarrow>
          (case sanitizeEvents events of
             Inl e \<Rightarrow> Inl e
           | Inr events' \<Rightarrow> Inr (event' # events')))"

text \<open>The result is the property list of the object \<open>sanitized\<close>.\<close>

definition sanitizeTelemetryData :: "json \<Rightarrow> error + (string \<times> json) list" where
  "sanitizeTelemetryData data =
     (case data of
        JObj kvs \<Rightarrow>
          (case map_of kvs ''events'' of
             Some (JArr events) \<Rightarrow>
               (case sanitizeEvents events of
                  Inl e \<Rightarrow> Inl e
                | Inr events' \<Rightarrow>
                    Inr (deleteProp ''sessionId'' (setProp ''events'' (JArr events') kvs)))
           | _ \<Rightarrow> Inl TypeError)
      | _ \<Rightarrow> Inl TypeError)"

subsection \<open>The endpoint \<open>POST /api/telemetry\<close>\<close>

record serverEnv =
  IP_SALT :: "string option"
  SERVER_VERSION :: "string option"

text \<open>What a request brings, and what the clock and the random source give while it is handled.\<close>

record request =
  reqIp :: "string option"
  remoteAddress :: "string option"
  isJson :: bool
  body :: json
  nowMs :: int
  nowIso :: string
  randomHex :: string

type_synonym storage = "string \<rightharpoonup> json"

record server =
  requestCounts :: requestCounts
  files :: storage

text \<open>\<open>a || d\<close> on strings: an absent or empty \<open>a\<close> gives \<open>d\<close>.\<close>

fun orDefault :: "string option \<Rightarrow> string \<Rightarrow> string" where
  "orDefault None d = d"
| "orDefault (Some s) d = (if s = [] then d else s)"

definition clientIP :: "request \<Rightarrow> string" where
  "clientIP req = orDefault (reqIp req) (orDefault (remoteAddress req) ''unknown'')"

text \<open>
  The argument of the address hash, \<open>clientIP + process.env.IP_SALT || 'default-salt'\<close>:
  \<open>+\<close> binds tighter than \<open>||\<close>, and an absent variable is concatenated as the
  text \<open>undefined\<close>.
\<close>

definition saltedAddress :: "serverEnv \<Rightarrow> string \<Rightarrow> string" where
  "saltedAddress env ip =
     orDefault (Some (ip @ (case IP_SALT env of None \<Rightarrow> ''undefined'' | Some salt \<Rightarrow> salt)))
       ''default-salt''"

definition generateFilename :: "request \<Rightarrow> string" where
  "generateFilename req =
     ''telemetry_'' @
     takeWhile (\<lambda>c. c \<noteq> CHR ''T'')
       (map (\<lambda>c. if c = CHR '':'' \<or> c = CHR ''.'' then CHR ''-'' else c) (nowIso req)) @
     ''_'' @ randomHex req @ ''.json''"

definition eventsLength :: "(string \<times> json) list \<Rightarrow> int" where
  "eventsLength kvs = (case map_of kvs ''events'' of Some (JArr events) \<Rightarrow> int (length events) | _ \<Rightarrow> 0)"

definition internalError :: response where
  "internalError = \<lparr>status = 500, payload = errorBody ''Internal server error''\<rparr>"

definition telemetryHandler :: "serverEnv \<Rightarrow> request \<Rightarrow> storage \<Rightarrow> response \<times> storage" where
  "telemetryHandler env req fs =
     (if \<not> isJson req
        then (\<lparr>status = 400, payload = errorBody ''Content-Type must be application/json''\<rparr>, fs)
      else case validateTelemetryData (body req) of
        Threw e \<Rightarrow> (internalError, fs)
      | Rejected ve \<Rightarrow> (\<lparr>status = 400, payload = errorBody ''Invalid data format''\<rparr>, fs)
      | Passed data \<Rightarrow>
          (case sanitizeTelemetryData data of
             Inl e \<Rightarrow> (internalError, fs)
           | Inr sanitizedData \<Rightarrow>
               let processedData =
                     setProp ''ipHash'' (JStr (hashAnonymousId (saltedAddress env (clientIP req))))
                       (setProp ''serverVersion'' (JStr (orDefault (SERVER_VERSION env) ''1.0.0''))
                         (setProp ''receivedAt'' (JStr (nowIso req)) sanitizedData));
                   filename = generateFilename req
               in (\<lparr>status = 200,
                    payload = JObj [(''success'', JBool True),
                                    (''message'', JStr ''Telemetry data received successfully''),
                                    (''eventsProcessed'', JNum (eventsLength processedData)),
                                    (''fileId'', JStr (takeWhile (\<lambda>c. c \<noteq> CHR ''.'') filename))]\<rparr>,
                   fs(filename \<mapsto> JObj processedData))))"

text \<open>
  The requests of a trace, each with its caller and the time it arrives, go through the
  rate limiter one after the other.
\<close>

fun serveAll :: "(string \<times> int) list \<Rightarrow> requestCounts \<Rightarrow> requestCounts" where
  "serveAll [] rc = rc"
| "serveAll (r # reqs) rc = serveAll reqs (snd (rateLimit (fst r) (snd r) rc))"

text \<open>The rate limiter is mounted in front of the handler.\<close>

definition postTelemetry :: "serverEnv \<Rightarrow> request \<Rightarrow> server \<Rightarrow> response \<times> server" where
  "postTelemetry env req srv =
     (case rateLimit (clientIP req) (nowMs req) (requestCounts srv) of
        (Some res, rc) \<Rightarrow> (res, srv\<lparr>requestCounts := rc\<rparr>)
      | (None, rc) \<Rightarrow>
          (case telemetryHandler env req (files srv) of
             (res, fs) \<Rightarrow> (res, srv\<lparr>requestCounts := rc, files := fs\<rparr>)))"


section \<open>The client (\<open>src/TelemetryManager.ts\<close>)\<close>

subsection \<open>The local batch\<close>

datatype eventType =
    thought_created
  | graph_opened
  | suggest_related_used
  | semantic_search_used
  | semantic_ai_graph_used

record telemetryEvent =
  eventType :: eventType
  timestamp :: string
  anonymousId :: string
  metadata :: "json option"

record stats =
  thoughtsCreated :: nat
  graphOpened :: nat
  suggestRelatedUsed :: nat
  semanticSearchUsed :: nat
  semanticAiGraphUsed :: nat
  uniqueDaysActive :: nat

record telemetryData =
  sessionId :: string
  extensionVersion :: string
  vscodeVersion :: string
  platform :: string
  weekStart :: string
  events :: "telemetryEvent list"
  aggregatedStats :: stats

text \<open>The JSON document of a batch, as \<open>JSON.stringify\<close> and the server see it.\<close>

fun eventTypeName :: "eventType \<Rightarrow> string" where
  "eventTypeName thought_created = ''thought_created''"
| "eventTypeName graph_opened = ''graph_opened''"
| "eventTypeName suggest_related_used = ''suggest_related_used''"
| "eventTypeName semantic_search_used = ''semantic_search_used''"
| "eventTypeName semantic_ai_graph_used = ''semantic_ai_graph_used''"

definition eventJson :: "telemetryEvent \<Rightarrow> json" where
  "eventJson e = JObj (definedProps
     [(''eventType'', Some (JStr (eventTypeName (eventType e)))),
      (''timestamp'', Some (JStr (timestamp e))),
      (''anonymousId'', Some (JStr (anonymousId e))),
      (''metadata'', metadata e)])"

definition statsJson :: "stats \<Rightarrow> json" where
  "statsJson a = JObj
     [(''thoughtsCreated'', JNum (int (thoughtsCreated a))),
      (''graphOpened'', JNum (int (graphOpened a))),
      (''suggestRelatedUsed'', JNum (int (suggestRelatedUsed a))),
      (''semanticSearchUsed'', JNum (int (semanticSearchUsed a))),
      (''semanticAiGraphUsed'', JNum (int (semanticAiGraphUsed a))),
      (''uniqueDaysActive'', JNum (int (uniqueDaysActive a)))]"

definition dataJson :: "telemetryData \<Rightarrow> json" where
  "dataJson d = JObj
     [(''sessionId'', JStr (sessionId d)),
      (''extensionVersion'', JStr (extensionVersion d)),
      (''vscodeVersion'', JStr (vscodeVersion d)),
      (''platform'', JStr (platform d)),
      (''weekStart'', JStr (weekStart d)),
      (''events'', JArr (map eventJson (events d))),
      (''aggregatedStats'', statsJson (aggregatedStats d))]"

subsection \<open>The manager, its timers and its surroundings\<close>

datatype timerKind = SubmissionTimeout | SubmissionInterval | RetryTimeout

record timer =
  handle :: nat
  kind :: timerKind
  delay :: int

text \<open>
  The fields of \<open>TelemetryManager\<close>, together with what it reaches through the host:
  the stored first activation (global state), the batch file (absent or unreadable is
  \<open>None\<close>), the number of writes to it, the timers pending in the event loop, and the
  payloads posted to the backend so far.
\<close>

record manager =
  isEnabled :: bool
  retryCount :: nat
  submissionTimer :: "nat option"
  retryTimer :: "nat option"
  activeDays :: "string set"
  telemetryFirstActivation :: "int option"
  telemetryFile :: "telemetryData option"
  fileWrites :: nat
  timers :: "timer list"
  nextHandle :: nat
  posted :: "telemetryData list"

text \<open>
  What the network does while one callback runs: whether the connectivity probe
  succeeds, and what \<open>fetch\<close> of the telemetry endpoint gives (a failure, or a
  response with its status and whether its body parses as JSON).
\<close>

datatype httpResult = FetchFailed | HttpResponse nat bool

record world =
  connectivity :: bool
  backend :: httpResult

datatype submitError = RateLimitExceeded | HttpError nat | NetworkFailure | BadResponseBody

definition SUBMISSION_INTERVAL :: int where
  "SUBMISSION_INTERVAL = 24 * 60 * 60 * 1000"

definition RETRY_DELAYS :: "int list" where
  "RETRY_DELAYS = [30 * 60 * 1000, 2 * 60 * 60 * 1000, 6 * 60 * 60 * 1000]"

definition MAX_DATA_AGE :: int where
  "MAX_DATA_AGE = 7 * 24 * 60 * 60 * 1000"

text \<open>\<open>setTimeout\<close> and \<open>setInterval\<close> give a fresh handle; clearing removes the timer.\<close>

definition setTimer :: "timerKind \<Rightarrow> int \<Rightarrow> manager \<Rightarrow> nat \<times> manager" where
  "setTimer k d st =
     (nextHandle st,
      st\<lparr>timers := timers st @ [\<lparr>handle = nextHandle st, kind = k, delay = d\<rparr>],
         nextHandle := nextHandle st + 1\<rparr>)"

definition clearTimer :: "nat \<Rightarrow> manager \<Rightarrow> manager" where
  "clearTimer h st = st\<lparr>timers := filter (\<lambda>t. handle t \<noteq> h) (timers st)\<rparr>"

definition clearTimers :: "manager \<Rightarrow> manager" where
  "clearTimers st =
     (let st1 = (case submissionTimer st of
                   Some h \<Rightarrow> (clearTimer h st)\<lparr>submissionTimer := None\<rparr>
                 | None \<Rightarrow> st)
      in case retryTimer st1 of
           Some h \<Rightarrow> (clearTimer h st1)\<lparr>retryTimer := None\<rparr>
         | None \<Rightarrow> st1)"

subsection \<open>Retention\<close>

text \<open>
  \<open>getTime\<close> stands for \<open>new Date(s).getTime()\<close>, with \<open>None\<close> for \<open>NaN\<close>
  (a comparison with \<open>NaN\<close> is false).
\<close>

definition cleanOldData :: "(string \<Rightarrow> int option) \<Rightarrow> int \<Rightarrow> manager \<Rightarrow> manager" where
  "cleanOldData getTime now st =
     (case telemetryFile st of
        None \<Rightarrow> st
      | Some d \<Rightarrow>
          let cutoffDate = now - MAX_DATA_AGE;
              filteredEvents = filter (\<lambda>e. case getTime (timestamp e) of
                                               Some eventTime \<Rightarrow> eventTime > cutoffDate
                                             | None \<Rightarrow> False) (events d)
          in if length filteredEvents < length (events d)
               then st\<lparr>telemetryFile := Some (d\<lparr>events := filteredEvents\<rparr>),
                       fileWrites := fileWrites st + 1\<rparr>
             else st)"

subsection \<open>Scheduling\<close>

definition nextSubmissionTime :: "int \<Rightarrow> int \<Rightarrow> int" where
  "nextSubmissionTime firstActivation now =
     (let timeSinceActivation = now - firstActivation;
          cyclesSinceActivation = timeSinceActivation div SUBMISSION_INTERVAL
      in firstActivation + (cyclesSinceActivation + 1) * SUBMISSION_INTERVAL)"

text \<open>
  \<open>t0\<close> and \<open>now\<close> are the two readings of the clock; a stored activation that is
  absent or \<open>0\<close> fails the test \<open>!firstActivation\<close> and is replaced by \<open>t0\<close>.
\<close>

definition setupSubmissionSchedule :: "int \<Rightarrow> int \<Rightarrow> manager \<Rightarrow> manager" where
  "setupSubmissionSchedule t0 now st =
     (let missing = (case telemetryFirstActivation st of None \<Rightarrow> True | Some v \<Rightarrow> v = 0);
          firstActivation = (case telemetryFirstActivation st of
                               None \<Rightarrow> t0
                             | Some v \<Rightarrow> if v = 0 then t0 else v);
          st1 = (if missing then st\<lparr>telemetryFirstActivation := Some t0\<rparr> else st);
          timeUntilNextSubmission = nextSubmissionTime firstActivation now - now;
          st2 = clearTimers st1
      in case setTimer SubmissionTimeout timeUntilNextSubmission st2 of
           (h, st3) \<Rightarrow> st3\<lparr>submissionTimer := Some h\<rparr>)"

definition scheduleRetry :: "manager \<Rightarrow> manager" where
  "scheduleRetry st =
     (if retryCount st \<ge> length RETRY_DELAYS then st
      else case setTimer RetryTimeout (RETRY_DELAYS ! retryCount st) st of
             (h, st') \<Rightarrow> st'\<lparr>retryTimer := Some h\<rparr>)"

subsection \<open>Submission\<close>

definition truncatePayload :: "telemetryData \<Rightarrow> telemetryData" where
  "truncatePayload d =
     (if length (stringify (dataJson d)) > 900000
        then d\<lparr>events := drop (length (events d) - 500) (events d)\<rparr>
      else d)"

definition sendToBackend :: "world \<Rightarrow> telemetryData \<Rightarrow> manager \<Rightarrow> (submitError + unit) \<times> manager" where
  "sendToBackend w d st =
     (let st' = st\<lparr>posted := posted st @ [truncatePayload d]\<rparr>
      in case backend w of
           FetchFailed \<Rightarrow> (Inl NetworkFailure, st')
         | HttpResponse code parses \<Rightarrow>
             if \<not> (200 \<le> code \<and> code \<le> 299)
               then (if code = 429 then (Inl RateLimitExceeded, st') else (Inl (HttpError code), st'))
             else if \<not> parses then (Inl BadResponseBody, st')
             else (Inr (), st'))"

definition clearTelemetryData :: "manager \<Rightarrow> manager" where
  "clearTelemetryData st = st\<lparr>activeDays := {}, telemetryFile := None\<rparr>"

text \<open>The \<open>catch\<close> block of \<open>submitTelemetryData\<close>.\<close>

definition submitFailed :: "manager \<Rightarrow> manager" where
  "submitFailed st = (if retryCount st < length RETRY_DELAYS then scheduleRetry st else st)"

definition submitTelemetryData :: "world \<Rightarrow> manager \<Rightarrow> manager" where
  "submitTelemetryData w st =
     (if \<not> isEnabled st then st
      else case telemetryFile st of
        None \<Rightarrow> submitFailed st
      | Some d \<Rightarrow>
          if length (events d) = 0 then st
          else (case sendToBackend w d st of
                  (Inl e, st1) \<Rightarrow> submitFailed st1
                | (Inr u, st1) \<Rightarrow>
                    let st2 = (clearTelemetryData st1)\<lparr>retryCount := 0\<rparr>
                    in case retryTimer st2 of
                         Some h \<Rightarrow> (clearTimer h st2)\<lparr>retryTimer := None\<rparr>
                       | None \<Rightarrow> st2))"

definition attemptSubmission :: "world \<Rightarrow> manager \<Rightarrow> manager" where
  "attemptSubmission w st =
     (let st1 = st\<lparr>retryCount := 0\<rparr>
      in if \<not> connectivity w then scheduleRetry st1 else submitTelemetryData w st1)"

text \<open>The callback that \<open>scheduleRetry\<close> hands to \<open>setTimeout\<close>.\<close>

definition retryCallback :: "world \<Rightarrow> manager \<Rightarrow> manager" where
  "retryCallback w st =
     (let st1 = st\<lparr>retryCount := retryCount st + 1\<rparr>
      in if \<not> connectivity w then scheduleRetry st1 else submitTelemetryData w st1)"

text \<open>The callback of the first submission timer: it submits, then starts the daily interval.\<close>

definition submissionCallback :: "world \<Rightarrow> manager \<Rightarrow> manager" where
  "submissionCallback w st =
     (case setTimer SubmissionInterval SUBMISSION_INTERVAL (attemptSubmission w st) of
        (h, st') \<Rightarrow> st'\<lparr>submissionTimer := Some h\<rparr>)"

text \<open>
  A pending timer fires: a timeout leaves the event loop as it fires, an interval stays.
  Firing a handle that is not pending does nothing.
\<close>

definition fireTimer :: "world \<Rightarrow> nat \<Rightarrow> manager \<Rightarrow> manager" where
  "fireTimer w h st =
     (case find (\<lambda>t. handle t = h) (timers st) of
        None \<Rightarrow> st
      | Some t \<Rightarrow>
          (case kind t of
             SubmissionInterval \<Rightarrow> attemptSubmission w st
           | SubmissionTimeout \<Rightarrow> submissionCallback w (clearTimer h st)
           | RetryTimeout \<Rightarrow> retryCallback w (clearTimer h st)))"


text \<open>The public \<open>manualSubmit\<close>; its messages to the user are left out.\<close>

definition manualSubmit :: "world \<Rightarrow> manager \<Rightarrow> manager" where
  "manualSubmit w st = (if \<not> isEnabled st then st else submitTelemetryData w st)"

text \<open>
  The manager as its constructor leaves it: no timer, no retry, no active day; the
  enabled flag and the first activation come from the global state, the batch file from
  the disk.
\<close>

definition newManager :: "bool \<Rightarrow> int option \<Rightarrow> telemetryData option \<Rightarrow> manager" where
  "newManager enabled stored file =
     \<lparr>isEnabled = enabled, retryCount = 0, submissionTimer = None, retryTimer = None,
      activeDays = {}, telemetryFirstActivation = stored, telemetryFile = file,
      fileWrites = 0, timers = [], nextHandle = 0, posted = []\<rparr>"

text \<open>Handles are handed out in increasing order: a pending timer has one already given.\<close>

definition freshHandles :: "manager \<Rightarrow> bool" where
  "freshHandles st = list_all (\<lambda>t. handle t < nextHandle st) (timers st)"

definition createEmptyTelemetryData :: "string \<Rightarrow> string \<Rightarrow> string \<Rightarrow> string \<Rightarrow> string \<Rightarrow> telemetryData" where
  "createEmptyTelemetryData session version host os week =
     \<lparr>sessionId = session, extensionVersion = version, vscodeVersion = host, platform = os,
      weekStart = week, events = [],
      aggregatedStats = \<lparr>thoughtsCreated = 0, graphOpened = 0, suggestRelatedUsed = 0,
                         semanticSearchUsed = 0, semanticAiGraphUsed = 0, uniqueDaysActive = 0\<rparr>\<rparr>"

section \<open>Notions used to state the properties\<close>

text \<open>Reading a property \<open>k\<close> of a value that is not \<open>null\<close>.\<close>

definition getProp :: "json \<Rightarrow> string \<Rightarrow> json option" where
  "getProp v k = (case v of JObj kvs \<Rightarrow> map_of kvs k | _ \<Rightarrow> None)"

text \<open>An event lacks a field when reading it gives nothing or a falsy value.\<close>

definition lacksField :: "json \<Rightarrow> bool" where
  "lacksField ev =
     list_ex (\<lambda>k. case getProp ev k of None \<Rightarrow> True | Some v \<Rightarrow> \<not> truthy v)
       [''eventType'', ''timestamp'', ''anonymousId'']"

text \<open>The event type as submitted is not one of the five allowed names.\<close>

definition typeOutsideWhitelist :: "json \<Rightarrow> bool" where
  "typeOutsideWhitelist ev =
     (case getProp ev ''eventType'' of None \<Rightarrow> True | Some t \<Rightarrow> \<not> includesType t)"

text \<open>The event type is not one of the five allowed names after \<open>sanitizeInput\<close>.\<close>

definition typeRejected :: "json \<Rightarrow> bool" where
  "typeRejected ev =
     (case getProp ev ''eventType'' of None \<Rightarrow> True | Some t \<Rightarrow> \<not> includesType (sanitizeInput t))"


text \<open>
  The data of \<open>Telemetry/test_server.js\<close>, with the list of events left open, an event
  of it without metadata, and a request that carries a body.
\<close>

definition testData :: "json list \<Rightarrow> json" where
  "testData evs = JObj
     [(''sessionId'', JStr ''test-session-123''),
      (''extensionVersion'', JStr ''1.0.0''),
      (''vscodeVersion'', JStr ''1.80.0''),
      (''platform'', JStr ''Windows''),
      (''weekStart'', JStr ''2025-10-01''),
      (''events'', JArr evs),
      (''aggregatedStats'', JObj [(''totalThoughts'', JNum 5), (''totalGraphOpens'', JNum 2)])]"

definition testEvent :: "string \<Rightarrow> string \<Rightarrow> json" where
  "testEvent name user = JObj
     [(''eventType'', JStr name),
      (''timestamp'', JStr ''2025-10-01T12:00:00.000Z''),
      (''anonymousId'', JStr user)]"

definition testRequest :: "json \<Rightarrow> request" where
  "testRequest b =
     \<lparr>reqIp = Some ''203.0.113.7'', remoteAddress = Some ''203.0.113.7'', isJson = True,
      body = b, nowMs = 1759320000000, nowIso = ''2025-10-01T12:00:00.000Z'',
      randomHex = ''a1b2c3d4''\<rparr>"

text \<open>A batch as a week of heavy use leaves it: 4000 events of the usual shape.\<close>

definition typicalEvent :: telemetryEvent where
  "typicalEvent =
     \<lparr>eventType = thought_created, timestamp = ''2025-10-20T12:00:00.000Z'',
      anonymousId = ''3f2b8c1e-5d4a-4e6f-9a7b-0c1d2e3f4a5b'',
      metadata = Some (JObj [(''thoughtType'', JStr ''note''), (''hasCodeSnippet'', JBool False)])\<rparr>"

definition busyWeek :: telemetryData where
  "busyWeek =
     (createEmptyTelemetryData ''1760961600000-k3j9x2m1q'' ''1.0.0'' ''1.80.0'' ''linux'' ''2025-10-20'')
       \<lparr>events := replicate 4000 typicalEvent,
        aggregatedStats := \<lparr>thoughtsCreated = 4000, graphOpened = 0, suggestRelatedUsed = 0,
                            semanticSearchUsed = 0, semanticAiGraphUsed = 0, uniqueDaysActive = 7\<rparr>\<rparr>"

text \<open>
  A manager with one event on disk whose user has asked twice for a submission
  (\<open>manualSubmit\<close>) while the backend could not be reached.
\<close>

definition backendDown :: world where
  "backendDown = \<lparr>connectivity = False, backend = FetchFailed\<rparr>"

definition backendUp :: world where
  "backendUp = \<lparr>connectivity = True, backend = HttpResponse 200 True\<rparr>"

definition twiceFailed :: manager where
  "twiceFailed =
     manualSubmit backendDown (manualSubmit backendDown
       (newManager True (Some 1000) (Some (busyWeek\<lparr>events := [typicalEvent]\<rparr>))))"


section \<open>The submission schedule\<close>

lemma floor_step_above:
  fixes I x :: int
  assumes "0 < I"
  shows "x < (x div I + 1) * I"
proof -
  have "x = I * (x div I) + x mod I" by simp
  moreover have "x mod I < I" using assms by simp
  ultimately have "x < I * (x div I) + I" by linarith
  then show ?thesis by (simp add: algebra_simps)
qed

lemma floor_step_least:
  fixes I x m :: int
  assumes "0 < I" and "x < m * I"
  shows "(x div I + 1) * I \<le> m * I"
proof -
  have "x = I * (x div I) + x mod I" by simp
  moreover have "0 \<le> x mod I" using assms(1) by simp
  ultimately have "I * (x div I) \<le> x" by linarith
  then have below: "(x div I) * I \<le> x" by (simp add: mult.commute)
  have "x div I < m"
  proof (rule ccontr)
    assume "\<not> x div I < m"
    then have "m \<le> x div I" by simp
    then have "m * I \<le> (x div I) * I" using assms(1) by (simp add: mult_right_mono)
    with below assms(2) show False by linarith
  qed
  then have "x div I + 1 \<le> m" by simp
  then show ?thesis using assms(1) by (simp add: mult_right_mono)
qed

lemma nextSubmissionTime_after: "now < nextSubmissionTime fa now"
  using floor_step_above [of SUBMISSION_INTERVAL "now - fa"]
  by (simp add: nextSubmissionTime_def Let_def SUBMISSION_INTERVAL_def)

lemma nextSubmissionTime_least:
  assumes "now < fa + m * SUBMISSION_INTERVAL"
  shows "nextSubmissionTime fa now \<le> fa + m * SUBMISSION_INTERVAL"
  using floor_step_least [of SUBMISSION_INTERVAL "now - fa" m] assms
  by (simp add: nextSubmissionTime_def Let_def SUBMISSION_INTERVAL_def)

lemma setup_arms_submission_timer:
  assumes "telemetryFirstActivation st = Some fa" and "fa \<noteq> 0"
  shows "submissionTimer (setupSubmissionSchedule t0 now st) = Some (nextHandle st) \<and>
         timers (setupSubmissionSchedule t0 now st) =
           timers (clearTimers st) @
           [\<lparr>handle = nextHandle st, kind = SubmissionTimeout,
             delay = nextSubmissionTime fa now - now\<rparr>]"
  using assms
  by (simp add: setupSubmissionSchedule_def setTimer_def clearTimers_def clearTimer_def Let_def
           split: option.splits)

text \<open>A stored activation of \<open>0\<close> is replaced like a missing one.\<close>

lemma stored_zero_counts_as_absent:
  assumes "telemetryFirstActivation st = None \<or> telemetryFirstActivation st = Some 0"
  shows "telemetryFirstActivation (setupSubmissionSchedule t0 now st) = Some t0"
  using assms
  by (auto simp: setupSubmissionSchedule_def setTimer_def clearTimers_def clearTimer_def Let_def
           split: option.splits)

text \<open>
  C4. Let a first activation instant \<open>fa\<close> be stored (the scheduler takes a stored
  \<open>0\<close> for a missing one, so \<open>fa\<close> is not \<open>0\<close>) and let \<open>now\<close> be at or after
  it. Then \<open>setupSubmissionSchedule\<close> arms the submission timer so that it fires at
  \<open>fa + (k + 1) * SUBMISSION_INTERVAL\<close> with \<open>k = (now - fa) div SUBMISSION_INTERVAL\<close>
  (the floor of the quotient): this instant is later than \<open>now\<close>, and no instant
  \<open>fa + m * SUBMISSION_INTERVAL\<close> with an integer \<open>m\<close> that is later than \<open>now\<close>
  comes before it.
\<close>

theorem next_submission_instant:
  assumes "telemetryFirstActivation st = Some fa" and "fa \<noteq> 0" and "fa \<le> now"
  shows "submissionTimer (setupSubmissionSchedule t0 now st) = Some (nextHandle st) \<and>
         timers (setupSubmissionSchedule t0 now st) =
           timers (clearTimers st) @
           [\<lparr>handle = nextHandle st, kind = SubmissionTimeout,
             delay = (fa + ((now - fa) div SUBMISSION_INTERVAL + 1) * SUBMISSION_INTERVAL) - now\<rparr>] \<and>
         now < fa + ((now - fa) div SUBMISSION_INTERVAL + 1) * SUBMISSION_INTERVAL \<and>
         (\<forall>m. now < fa + m * SUBMISSION_INTERVAL \<longrightarrow>
                fa + ((now - fa) div SUBMISSION_INTERVAL + 1) * SUBMISSION_INTERVAL
                  \<le> fa + m * SUBMISSION_INTERVAL)"
proof -
  have eq: "nextSubmissionTime fa now =
              fa + ((now - fa) div SUBMISSION_INTERVAL + 1) * SUBMISSION_INTERVAL"
    by (simp add: nextSubmissionTime_def Let_def)
  show ?thesis
    using setup_arms_submission_timer [OF assms(1,2), of t0 now]
      nextSubmissionTime_after [of now fa] nextSubmissionTime_least [of now fa]
    unfolding eq by blast
qed

text \<open>
  The scenario of a first activation at \<open>T0 = 1000\<close> and a start 30 hours later: the
  timer is armed for \<open>T0 + 48h\<close>, 18 hours ahead.
\<close>

theorem next_submission_instant_witness:
  "telemetryFirstActivation (newManager True (Some 1000) None) = Some 1000 \<and>
   (1000 :: int) \<noteq> 0 \<and> (1000 :: int) \<le> 108001000 \<and>
   timers (setupSubmissionSchedule 108000900 108001000 (newManager True (Some 1000) None)) =
     [\<lparr>handle = 0, kind = SubmissionTimeout, delay = 64800000\<rparr>] \<and>
   (108001000 :: int) < 1000 + 2 * SUBMISSION_INTERVAL"
  using next_submission_instant [of "newManager True (Some 1000) None" 1000 108001000 108000900]
  by (simp add: newManager_def SUBMISSION_INTERVAL_def clearTimers_def)

section \<open>The rate limiter\<close>

lemma rateLimit_other: "ip' \<noteq> ip \<Longrightarrow> snd (rateLimit ip' t rc) ip = rc ip"
  by (simp add: rateLimit_def split: option.splits)

lemma rateLimit_within:
  assumes "rc ip = Some \<lparr>count = c, windowStart = t1\<rparr>" and "t - t1 \<le> RATE_WINDOW"
  shows "rateLimit ip t rc =
           (if c \<ge> RATE_LIMIT then (Some \<lparr>status = 429,
                    payload = errorBody ''Rate limit exceeded. Please try again later.''\<rparr>, rc)
            else (None, rc(ip \<mapsto> \<lparr>count = c + 1, windowStart = t1\<rparr>)))"
  using assms by (simp add: rateLimit_def)

lemma serveAll_window:
  assumes "rc ip = Some \<lparr>count = c, windowStart = t1\<rparr>" and "c \<le> RATE_LIMIT"
    and "\<forall>r \<in> set reqs. fst r = ip \<longrightarrow> snd r - t1 \<le> RATE_WINDOW"
  shows "serveAll reqs rc ip =
           Some \<lparr>count = min (c + length (filter (\<lambda>r. fst r = ip) reqs)) RATE_LIMIT, windowStart = t1\<rparr>"
  using assms
proof (induction reqs arbitrary: rc c)
  case Nil
  then show ?case by simp
next
  case (Cons r reqs)
  define rc' where "rc' = snd (rateLimit (fst r) (snd r) rc)"
  have rest: "\<forall>r \<in> set reqs. fst r = ip \<longrightarrow> snd r - t1 \<le> RATE_WINDOW"
    using Cons.prems(3) by simp
  show ?case
  proof (cases "fst r = ip")
    case False
    then have "rc' ip = Some \<lparr>count = c, windowStart = t1\<rparr>"
      using Cons.prems(1) by (simp add: rc'_def rateLimit_other)
    then have "serveAll reqs rc' ip =
        Some \<lparr>count = min (c + length (filter (\<lambda>r. fst r = ip) reqs)) RATE_LIMIT, windowStart = t1\<rparr>"
      using Cons.prems(2) rest by (rule Cons.IH)
    then show ?thesis using False by (simp add: rc'_def)
  next
    case True
    then have w: "snd r - t1 \<le> RATE_WINDOW" using Cons.prems(3) by simp
    show ?thesis
    proof (cases "c \<ge> RATE_LIMIT")
      case full: True
      then have "rc' ip = Some \<lparr>count = c, windowStart = t1\<rparr>"
        using rateLimit_within [of rc ip c t1 "snd r"] w True Cons.prems(1) by (simp add: rc'_def)
      then have "serveAll reqs rc' ip =
          Some \<lparr>count = min (c + length (filter (\<lambda>r. fst r = ip) reqs)) RATE_LIMIT, windowStart = t1\<rparr>"
        using Cons.prems(2) rest by (rule Cons.IH)
      then show ?thesis using True full Cons.prems(2) by (simp add: rc'_def)
    next
      case room: False
      then have "rc' ip = Some \<lparr>count = c + 1, windowStart = t1\<rparr>"
        using rateLimit_within [of rc ip c t1 "snd r"] w True Cons.prems(1) by (simp add: rc'_def)
      moreover have "c + 1 \<le> RATE_LIMIT" using room by simp
      ultimately have "serveAll reqs rc' ip =
          Some \<lparr>count = min (c + 1 + length (filter (\<lambda>r. fst r = ip) reqs)) RATE_LIMIT, windowStart = t1\<rparr>"
        using rest by (rule Cons.IH)
      then show ?thesis using True by (simp add: rc'_def)
    qed
  qed
qed

text \<open>
  C3. The limit is 100 requests in a window of one hour. The first request of a caller
  \<open>ip\<close>, at time \<open>t1\<close>, stores \<open>{count: 1, windowStart: t1}\<close> and is let
  through. Let any requests follow, of this caller within the window and of other callers
  at any time. Then a further request of \<open>ip\<close> within the window is let through when
  fewer than 100 requests of \<open>ip\<close> came before it and is answered with status 429
  otherwise (so the requests 2 to 100 pass and request 101 is refused), and a request of
  \<open>ip\<close> after the window has elapsed is let through and starts a new window with
  count 1.
\<close>

theorem rate_limit_window:
  assumes "rc ip = None"
    and "\<forall>r \<in> set reqs. fst r = ip \<longrightarrow> snd r - t1 \<le> RATE_WINDOW"
  shows "RATE_LIMIT = 100 \<and> RATE_WINDOW = 3600000 \<and>
         rateLimit ip t1 rc = (None, rc(ip \<mapsto> \<lparr>count = 1, windowStart = t1\<rparr>)) \<and>
         (\<forall>t. t - t1 \<le> RATE_WINDOW \<longrightarrow>
            fst (rateLimit ip t (serveAll ((ip, t1) # reqs) rc)) =
              (if 1 + length (filter (\<lambda>r. fst r = ip) reqs) < 100 then None
               else Some \<lparr>status = 429,
                          payload = errorBody ''Rate limit exceeded. Please try again later.''\<rparr>)) \<and>
         (\<forall>t. t - t1 > RATE_WINDOW \<longrightarrow>
            rateLimit ip t (serveAll ((ip, t1) # reqs) rc) =
              (None, (serveAll ((ip, t1) # reqs) rc)(ip \<mapsto> \<lparr>count = 1, windowStart = t\<rparr>)))"
proof -
  have first: "rateLimit ip t1 rc = (None, rc(ip \<mapsto> \<lparr>count = 1, windowStart = t1\<rparr>))"
    using assms(1) by (simp add: rateLimit_def)
  define n where "n = length (filter (\<lambda>r. fst r = ip) reqs)"
  define rc' where "rc' = serveAll ((ip, t1) # reqs) rc"
  have "(rc(ip \<mapsto> \<lparr>count = 1, windowStart = t1\<rparr>)) ip = Some \<lparr>count = 1, windowStart = t1\<rparr>"
    by simp
  moreover have "(1::nat) \<le> RATE_LIMIT" by (simp add: RATE_LIMIT_def)
  ultimately have "serveAll reqs (rc(ip \<mapsto> \<lparr>count = 1, windowStart = t1\<rparr>)) ip =
      Some \<lparr>count = min (1 + length (filter (\<lambda>r. fst r = ip) reqs)) RATE_LIMIT, windowStart = t1\<rparr>"
    using assms(2) by (rule serveAll_window)
  then have entry: "rc' ip = Some \<lparr>count = min (1 + n) RATE_LIMIT, windowStart = t1\<rparr>"
    by (simp add: rc'_def n_def first)
  have within: "fst (rateLimit ip t rc') =
      (if 1 + n < 100 then None
       else Some \<lparr>status = 429,
                  payload = errorBody ''Rate limit exceeded. Please try again later.''\<rparr>)"
    if "t - t1 \<le> RATE_WINDOW" for t
    using rateLimit_within [of rc' ip "min (1 + n) RATE_LIMIT" t1 t] entry that
    by (simp add: RATE_LIMIT_def)
  have after: "rateLimit ip t rc' = (None, rc'(ip \<mapsto> \<lparr>count = 1, windowStart = t\<rparr>))"
    if "t - t1 > RATE_WINDOW" for t
    using entry that by (simp add: rateLimit_def)
  show ?thesis
    using first within after
    by (simp add: RATE_LIMIT_def RATE_WINDOW_def n_def rc'_def del: serveAll.simps)
qed

text \<open>
  One caller sends 100 requests within five seconds; the next one, ten seconds after the
  first, is refused, and one that comes two hours later passes.
\<close>

theorem rate_limit_window_witness:
  "(Map.empty :: requestCounts) ''10.0.0.1'' = None \<and>
   list_all (\<lambda>r. snd r - 0 \<le> RATE_WINDOW) (replicate 99 (''10.0.0.1'', 5000 :: int)) \<and>
   fst (rateLimit ''10.0.0.1'' 10000
          (serveAll ((''10.0.0.1'', 0) # replicate 99 (''10.0.0.1'', 5000)) Map.empty)) =
     Some \<lparr>status = 429, payload = errorBody ''Rate limit exceeded. Please try again later.''\<rparr> \<and>
   fst (rateLimit ''10.0.0.1'' 7200000
          (serveAll ((''10.0.0.1'', 0) # replicate 99 (''10.0.0.1'', 5000)) Map.empty)) = None"
  using rate_limit_window [of Map.empty "''10.0.0.1''" "replicate 99 (''10.0.0.1'', 5000)" 0]
  by (simp add: RATE_WINDOW_def list_all_iff del: serveAll.simps)

section \<open>Retries\<close>

lemma filter_fresh:
  assumes "list_all (\<lambda>t. handle t < h) ts"
  shows "filter (\<lambda>t. handle t \<noteq> h) ts = ts"
  using assms by (induction ts) auto

lemma find_fresh:
  assumes "list_all (\<lambda>t. handle t < h) ts" and "handle t = h"
  shows "find (\<lambda>t. handle t = h) (ts @ [t]) = Some t"
  using assms by (induction ts) auto

lemma scheduleRetry_arms:
  assumes "retryCount st < length RETRY_DELAYS"
  shows "scheduleRetry st =
           st\<lparr>timers := timers st @ [\<lparr>handle = nextHandle st, kind = RetryTimeout,
                                       delay = RETRY_DELAYS ! retryCount st\<rparr>],
              nextHandle := nextHandle st + 1,
              retryTimer := Some (nextHandle st)\<rparr>"
  using assms by (simp add: scheduleRetry_def setTimer_def)

lemma scheduleRetry_exhausted:
  assumes "retryCount st \<ge> length RETRY_DELAYS"
  shows "scheduleRetry st = st"
  using assms by (simp add: scheduleRetry_def)

lemma attemptSubmission_offline:
  assumes "\<not> connectivity w"
  shows "attemptSubmission w st =
           st\<lparr>retryCount := 0,
              timers := timers st @ [\<lparr>handle = nextHandle st, kind = RetryTimeout, delay = RETRY_DELAYS ! 0\<rparr>],
              nextHandle := nextHandle st + 1,
              retryTimer := Some (nextHandle st)\<rparr>"
  using assms by (simp add: attemptSubmission_def scheduleRetry_def setTimer_def RETRY_DELAYS_def)

text \<open>A retry timer fires while the probe fails.\<close>

lemma retry_fires_offline:
  assumes "\<not> connectivity w"
    and "list_all (\<lambda>t. handle t < h) ts"
    and "timers st = ts @ [\<lparr>handle = h, kind = RetryTimeout, delay = d\<rparr>]"
  shows "fireTimer w h st = scheduleRetry (st\<lparr>timers := ts, retryCount := retryCount st + 1\<rparr>)"
proof -
  have "find (\<lambda>t. handle t = h) (timers st) = Some \<lparr>handle = h, kind = RetryTimeout, delay = d\<rparr>"
    using find_fresh [OF assms(2), of "\<lparr>handle = h, kind = RetryTimeout, delay = d\<rparr>"] assms(3) by simp
  moreover have "clearTimer h st = st\<lparr>timers := ts\<rparr>"
    using filter_fresh [OF assms(2)] assms(3) by (simp add: clearTimer_def)
  ultimately show ?thesis
    using assms(1) by (simp add: fireTimer_def retryCallback_def)
qed

text \<open>
  Every operation of the manager keeps the handles of the pending timers below the next
  handle; the manager starts so.
\<close>

lemma freshHandles_setTimer: "freshHandles st \<Longrightarrow> freshHandles (snd (setTimer k d st))"
  by (auto simp: freshHandles_def setTimer_def list_all_iff)

lemma freshHandles_clearTimer: "freshHandles st \<Longrightarrow> freshHandles (clearTimer h st)"
  by (auto simp: freshHandles_def clearTimer_def list_all_iff)

lemma freshHandles_fields:
  "timers st' = timers st \<Longrightarrow> nextHandle st' = nextHandle st \<Longrightarrow>
   freshHandles st \<Longrightarrow> freshHandles st'"
  by (simp add: freshHandles_def)

lemma freshHandles_clearTimers: "freshHandles st \<Longrightarrow> freshHandles (clearTimers st)"
  by (auto simp: freshHandles_def clearTimers_def clearTimer_def list_all_iff Let_def
           split: option.splits)

lemma freshHandles_scheduleRetry: "freshHandles st \<Longrightarrow> freshHandles (scheduleRetry st)"
  by (auto simp: freshHandles_def scheduleRetry_def setTimer_def list_all_iff)

lemma freshHandles_setup:
  "freshHandles st \<Longrightarrow> freshHandles (setupSubmissionSchedule t0 now st)"
  by (auto simp: freshHandles_def setupSubmissionSchedule_def setTimer_def clearTimers_def
                 clearTimer_def list_all_iff Let_def split: option.splits)

lemma freshHandles_submit:
  "freshHandles st \<Longrightarrow> freshHandles (submitTelemetryData w st)"
  by (auto simp: freshHandles_def submitTelemetryData_def submitFailed_def scheduleRetry_def
                 setTimer_def sendToBackend_def clearTelemetryData_def clearTimer_def
                 list_all_iff Let_def
           split: option.splits httpResult.splits if_splits)

lemma freshHandles_attempt:
  "freshHandles st \<Longrightarrow> freshHandles (attemptSubmission w st)"
  using freshHandles_submit [of "st\<lparr>retryCount := 0\<rparr>" w]
        freshHandles_scheduleRetry [of "st\<lparr>retryCount := 0\<rparr>"]
  by (simp add: attemptSubmission_def freshHandles_def Let_def)

lemma freshHandles_retryCallback:
  "freshHandles st \<Longrightarrow> freshHandles (retryCallback w st)"
  using freshHandles_submit [of "st\<lparr>retryCount := retryCount st + 1\<rparr>" w]
        freshHandles_scheduleRetry [of "st\<lparr>retryCount := retryCount st + 1\<rparr>"]
  by (simp add: retryCallback_def freshHandles_def Let_def)

lemma freshHandles_fireTimer:
  assumes "freshHandles st"
  shows "freshHandles (fireTimer w h st)"
proof -
  have c: "freshHandles (clearTimer h st)" using assms by (rule freshHandles_clearTimer)
  have "freshHandles (submissionCallback w (clearTimer h st))"
    using freshHandles_setTimer [OF freshHandles_attempt [OF c, of w], of SubmissionInterval SUBMISSION_INTERVAL]
    by (simp add: submissionCallback_def freshHandles_def setTimer_def)
  then show ?thesis
    using assms freshHandles_attempt [OF assms, of w] freshHandles_retryCallback [OF c, of w]
    by (simp add: fireTimer_def split: option.splits timerKind.splits)
qed

lemma freshHandles_newManager: "freshHandles (newManager enabled stored file)"
  by (simp add: freshHandles_def newManager_def)

text \<open>
  C5. A submission cycle in which the connectivity probe fails at the first attempt and
  at every retry: \<open>attemptSubmission\<close> arms a retry timer of 30 minutes; when it fires
  a timer of 2 hours is armed, and when that fires one of 6 hours. When the third fires
  and the probe fails again, no timer is armed: the pending timers are those from before
  the cycle, the retry index is 3, nothing has been posted and the batch file is as it
  was. The delay table has exactly these three entries.
\<close>

theorem three_retries_then_idle:
  assumes fresh: "freshHandles st"
    and offline: "\<not> connectivity w0" "\<not> connectivity w1" "\<not> connectivity w2" "\<not> connectivity w3"
    and steps: "st1 = attemptSubmission w0 st"
               "st2 = fireTimer w1 (nextHandle st) st1"
               "st3 = fireTimer w2 (nextHandle st + 1) st2"
               "st4 = fireTimer w3 (nextHandle st + 2) st3"
  shows "RETRY_DELAYS = [1800000, 7200000, 21600000] \<and>
         retryTimer st1 = Some (nextHandle st) \<and>
         timers st1 = timers st @ [\<lparr>handle = nextHandle st, kind = RetryTimeout, delay = 1800000\<rparr>] \<and>
         retryTimer st2 = Some (nextHandle st + 1) \<and>
         timers st2 = timers st @ [\<lparr>handle = nextHandle st + 1, kind = RetryTimeout, delay = 7200000\<rparr>] \<and>
         retryTimer st3 = Some (nextHandle st + 2) \<and>
         timers st3 = timers st @ [\<lparr>handle = nextHandle st + 2, kind = RetryTimeout, delay = 21600000\<rparr>] \<and>
         timers st4 = timers st \<and> retryCount st4 = 3 \<and>
         posted st4 = posted st \<and> telemetryFile st4 = telemetryFile st"
proof -
  let ?h = "nextHandle st"
  have f0: "list_all (\<lambda>t. handle t < ?h) (timers st)"
    using fresh by (simp add: freshHandles_def)
  have f1: "list_all (\<lambda>t. handle t < ?h + 1) (timers st)"
    and f2: "list_all (\<lambda>t. handle t < ?h + 2) (timers st)"
    using f0 by (auto simp: list_all_iff)
  have s1: "st1 = st\<lparr>retryCount := 0,
              timers := timers st @ [\<lparr>handle = ?h, kind = RetryTimeout, delay = 1800000\<rparr>],
              nextHandle := ?h + 1, retryTimer := Some ?h\<rparr>"
    using attemptSubmission_offline [OF offline(1), of st] steps(1) by (simp add: RETRY_DELAYS_def)
  have "st2 = scheduleRetry (st1\<lparr>timers := timers st, retryCount := retryCount st1 + 1\<rparr>)"
    unfolding steps(2) by (rule retry_fires_offline [OF offline(2) f0]) (simp add: s1)
  then have s2: "st2 = st\<lparr>retryCount := 1,
              timers := timers st @ [\<lparr>handle = ?h + 1, kind = RetryTimeout, delay = 7200000\<rparr>],
              nextHandle := ?h + 2, retryTimer := Some (?h + 1)\<rparr>"
    by (simp add: s1 scheduleRetry_def setTimer_def RETRY_DELAYS_def)
  have "st3 = scheduleRetry (st2\<lparr>timers := timers st, retryCount := retryCount st2 + 1\<rparr>)"
    unfolding steps(3) by (rule retry_fires_offline [OF offline(3) f1]) (simp add: s2)
  then have s3: "st3 = st\<lparr>retryCount := 2,
              timers := timers st @ [\<lparr>handle = ?h + 2, kind = RetryTimeout, delay = 21600000\<rparr>],
              nextHandle := ?h + 3, retryTimer := Some (?h + 2)\<rparr>"
    by (simp add: s2 scheduleRetry_def setTimer_def RETRY_DELAYS_def)
  have "st4 = scheduleRetry (st3\<lparr>timers := timers st, retryCount := retryCount st3 + 1\<rparr>)"
    unfolding steps(4) by (rule retry_fires_offline [OF offline(4) f2]) (simp add: s3)
  then have s4: "st4 = st\<lparr>retryCount := 3, timers := timers st,
              nextHandle := ?h + 3, retryTimer := Some (?h + 2)\<rparr>"
    by (simp add: s3 scheduleRetry_def RETRY_DELAYS_def)
  show ?thesis
    by (simp add: s1 s2 s3 s4 RETRY_DELAYS_def)
qed

theorem three_retries_then_idle_witness:
  "freshHandles (newManager True (Some 1000) None) \<and>
   \<not> connectivity \<lparr>connectivity = False, backend = FetchFailed\<rparr> \<and>
   timers (attemptSubmission \<lparr>connectivity = False, backend = FetchFailed\<rparr>
             (newManager True (Some 1000) None)) =
     [\<lparr>handle = 0, kind = RetryTimeout, delay = 1800000\<rparr>] \<and>
   timers (fireTimer \<lparr>connectivity = False, backend = FetchFailed\<rparr> 2
            (fireTimer \<lparr>connectivity = False, backend = FetchFailed\<rparr> 1
              (fireTimer \<lparr>connectivity = False, backend = FetchFailed\<rparr> 0
                (attemptSubmission \<lparr>connectivity = False, backend = FetchFailed\<rparr>
                  (newManager True (Some 1000) None))))) = []"
  using three_retries_then_idle [of "newManager True (Some 1000) None"
      "\<lparr>connectivity = False, backend = FetchFailed\<rparr>" "\<lparr>connectivity = False, backend = FetchFailed\<rparr>"
      "\<lparr>connectivity = False, backend = FetchFailed\<rparr>" "\<lparr>connectivity = False, backend = FetchFailed\<rparr>",
      OF _ _ _ _ _ refl refl refl refl]
  by (simp add: freshHandles_def newManager_def numeral_2_eq_2)

section \<open>An empty batch\<close>

text \<open>
  C10. When the batch file holds no event, \<open>submitTelemetryData\<close> returns the
  manager as it found it: nothing is posted, no failure is handled and so no retry is
  scheduled, and the file with its counters stays. The same holds for an attempt that
  starts at \<open>attemptSubmission\<close> and finds connectivity, but for the reset of the
  retry index.
\<close>

theorem submit_empty_batch_is_noop:
  assumes "telemetryFile st = Some d" and "events d = []"
  shows "submitTelemetryData w st = st \<and>
         posted (submitTelemetryData w st) = posted st \<and>
         telemetryFile (submitTelemetryData w st) = Some d \<and>
         timers (submitTelemetryData w st) = timers st \<and>
         (connectivity w \<longrightarrow> attemptSubmission w st = st\<lparr>retryCount := 0\<rparr>)"
  using assms by (simp add: submitTelemetryData_def attemptSubmission_def)

theorem submit_empty_batch_is_noop_witness:
  "telemetryFile (newManager True (Some 1000)
       (Some (createEmptyTelemetryData ''s1'' ''1.0.0'' ''1.80.0'' ''linux'' ''2025-10-20''))) =
     Some (createEmptyTelemetryData ''s1'' ''1.0.0'' ''1.80.0'' ''linux'' ''2025-10-20'') \<and>
   events (createEmptyTelemetryData ''s1'' ''1.0.0'' ''1.80.0'' ''linux'' ''2025-10-20'') = [] \<and>
   submitTelemetryData \<lparr>connectivity = True, backend = HttpResponse 200 True\<rparr>
     (newManager True (Some 1000)
       (Some (createEmptyTelemetryData ''s1'' ''1.0.0'' ''1.80.0'' ''linux'' ''2025-10-20''))) =
     newManager True (Some 1000)
       (Some (createEmptyTelemetryData ''s1'' ''1.0.0'' ''1.80.0'' ''linux'' ''2025-10-20''))"
  using submit_empty_batch_is_noop [of "newManager True (Some 1000)
       (Some (createEmptyTelemetryData ''s1'' ''1.0.0'' ''1.80.0'' ''linux'' ''2025-10-20''))"
       "createEmptyTelemetryData ''s1'' ''1.0.0'' ''1.80.0'' ''linux'' ''2025-10-20''"
       "\<lparr>connectivity = True, backend = HttpResponse 200 True\<rparr>"]
  by (simp add: newManager_def createEmptyTelemetryData_def)

section \<open>Retention\<close>

lemma filter_same_length:
  "length (filter P xs) = length xs \<Longrightarrow> filter P xs = xs"
proof (induction xs)
  case Nil
  then show ?case by simp
next
  case (Cons x xs)
  have "length (filter P xs) \<le> length xs" by simp
  with Cons show ?case by (cases "P x") auto
qed

lemma filter_drops_iff:
  "length (filter P xs) < length xs \<longleftrightarrow> (\<exists>x \<in> set xs. x \<notin> set (filter P xs))"
proof
  assume "length (filter P xs) < length xs"
  then have "filter P xs \<noteq> xs" by auto
  then have "\<exists>x \<in> set xs. \<not> P x" by (simp add: filter_id_conv)
  then show "\<exists>x \<in> set xs. x \<notin> set (filter P xs)" by auto
next
  assume "\<exists>x \<in> set xs. x \<notin> set (filter P xs)"
  then have "\<exists>x \<in> set xs. \<not> P x" by auto
  then show "length (filter P xs) < length xs" by (auto intro: length_filter_less)
qed

text \<open>
  C9. The retention window is 7 days. After \<open>cleanOldData\<close> the file holds the
  batch with some of its events: every event whose age \<open>now - t\<close> is below the window
  is among them, and no event whose age is the window or more. The file is written (once)
  when some event of the batch is dropped, and the manager and the file are left as they
  are when none is. An event whose timestamp does not parse has no age and is dropped.
\<close>

theorem cleanOldData_retention:
  assumes "telemetryFile st = Some d"
  shows "MAX_DATA_AGE = 604800000 \<and>
         (\<exists>kept. telemetryFile (cleanOldData getTime now st) = Some (d\<lparr>events := kept\<rparr>) \<and>
            set kept \<subseteq> set (events d) \<and>
            (\<forall>e t. e \<in> set (events d) \<and> getTime (timestamp e) = Some t \<and> now - t < MAX_DATA_AGE
                   \<longrightarrow> e \<in> set kept) \<and>
            (\<forall>e t. getTime (timestamp e) = Some t \<and> now - t \<ge> MAX_DATA_AGE \<longrightarrow> e \<notin> set kept) \<and>
            ((\<exists>e \<in> set (events d). e \<notin> set kept) \<longrightarrow>
               fileWrites (cleanOldData getTime now st) = fileWrites st + 1) \<and>
            ((\<forall>e \<in> set (events d). e \<in> set kept) \<longrightarrow> cleanOldData getTime now st = st))"
proof -
  let ?keep = "\<lambda>e. case getTime (timestamp e) of Some eventTime \<Rightarrow> eventTime > now - MAX_DATA_AGE | None \<Rightarrow> False"
  let ?kept = "filter ?keep (events d)"
  have writes: "if length ?kept < length (events d)
               then fileWrites (cleanOldData getTime now st) = fileWrites st + 1
                    \<and> telemetryFile (cleanOldData getTime now st) = Some (d\<lparr>events := ?kept\<rparr>)
             else cleanOldData getTime now st = st"
    using assms by (simp add: cleanOldData_def Let_def)
  have stored: "telemetryFile (cleanOldData getTime now st) = Some (d\<lparr>events := ?kept\<rparr>)"
  proof (cases "length ?kept < length (events d)")
    case True
    then show ?thesis using writes by simp
  next
    case False
    then have "length ?kept = length (events d)"
      using length_filter_le [of ?keep "events d"] by linarith
    then have "?kept = events d" by (rule filter_same_length)
    then show ?thesis using assms False writes by simp
  qed
  have young: "\<forall>e t. e \<in> set (events d) \<and> getTime (timestamp e) = Some t \<and> now - t < MAX_DATA_AGE
                   \<longrightarrow> e \<in> set ?kept"
    by auto
  have old: "\<forall>e t. getTime (timestamp e) = Some t \<and> now - t \<ge> MAX_DATA_AGE \<longrightarrow> e \<notin> set ?kept"
    by auto
  have removed: "(\<exists>e \<in> set (events d). e \<notin> set ?kept) \<longrightarrow>
               fileWrites (cleanOldData getTime now st) = fileWrites st + 1"
    using writes filter_drops_iff [of ?keep "events d"] by presburger
  have untouched: "(\<forall>e \<in> set (events d). e \<in> set ?kept) \<longrightarrow> cleanOldData getTime now st = st"
    using writes filter_drops_iff [of ?keep "events d"] by meson
  have "set ?kept \<subseteq> set (events d)" by simp
  then show ?thesis
    using stored young old removed untouched
    by (intro conjI exI [of _ ?kept]) (simp_all add: MAX_DATA_AGE_def)
qed

theorem cleanOldData_retention_witness:
  "telemetryFile (newManager True (Some 1000)
       (Some ((createEmptyTelemetryData ''s1'' ''1.0.0'' ''1.80.0'' ''linux'' ''2025-09-29'')
          \<lparr>events := [\<lparr>eventType = graph_opened, timestamp = ''2025-10-01T00:00:00.000Z'',
                        anonymousId = ''id'', metadata = None\<rparr>,
                      \<lparr>eventType = thought_created, timestamp = ''2025-10-20T12:00:00.000Z'',
                        anonymousId = ''id'', metadata = None\<rparr>]\<rparr>))) =
     Some ((createEmptyTelemetryData ''s1'' ''1.0.0'' ''1.80.0'' ''linux'' ''2025-09-29'')
          \<lparr>events := [\<lparr>eventType = graph_opened, timestamp = ''2025-10-01T00:00:00.000Z'',
                        anonymousId = ''id'', metadata = None\<rparr>,
                      \<lparr>eventType = thought_created, timestamp = ''2025-10-20T12:00:00.000Z'',
                        anonymousId = ''id'', metadata = None\<rparr>]\<rparr>) \<and>
   (\<exists>kept. map_option events (telemetryFile (cleanOldData
        (\<lambda>s. if s = ''2025-10-01T00:00:00.000Z'' then Some 1759276800000
             else if s = ''2025-10-20T12:00:00.000Z'' then Some 1760961600000 else None)
        1761004800000
        (newManager True (Some 1000)
          (Some ((createEmptyTelemetryData ''s1'' ''1.0.0'' ''1.80.0'' ''linux'' ''2025-09-29'')
            \<lparr>events := [\<lparr>eventType = graph_opened, timestamp = ''2025-10-01T00:00:00.000Z'',
                          anonymousId = ''id'', metadata = None\<rparr>,
                        \<lparr>eventType = thought_created, timestamp = ''2025-10-20T12:00:00.000Z'',
                          anonymousId = ''id'', metadata = None\<rparr>]\<rparr>))))) = Some kept \<and>
      \<lparr>eventType = thought_created, timestamp = ''2025-10-20T12:00:00.000Z'',
        anonymousId = ''id'', metadata = None\<rparr> \<in> set kept \<and>
      \<lparr>eventType = graph_opened, timestamp = ''2025-10-01T00:00:00.000Z'',
        anonymousId = ''id'', metadata = None\<rparr> \<notin> set kept)"
  using cleanOldData_retention [of "newManager True (Some 1000)
       (Some ((createEmptyTelemetryData ''s1'' ''1.0.0'' ''1.80.0'' ''linux'' ''2025-09-29'')
          \<lparr>events := [\<lparr>eventType = graph_opened, timestamp = ''2025-10-01T00:00:00.000Z'',
                        anonymousId = ''id'', metadata = None\<rparr>,
                      \<lparr>eventType = thought_created, timestamp = ''2025-10-20T12:00:00.000Z'',
                        anonymousId = ''id'', metadata = None\<rparr>]\<rparr>))"
     "(createEmptyTelemetryData ''s1'' ''1.0.0'' ''1.80.0'' ''linux'' ''2025-09-29'')
          \<lparr>events := [\<lparr>eventType = graph_opened, timestamp = ''2025-10-01T00:00:00.000Z'',
                        anonymousId = ''id'', metadata = None\<rparr>,
                      \<lparr>eventType = thought_created, timestamp = ''2025-10-20T12:00:00.000Z'',
                        anonymousId = ''id'', metadata = None\<rparr>]\<rparr>"
     "(\<lambda>s. if s = ''2025-10-01T00:00:00.000Z'' then Some 1759276800000
             else if s = ''2025-10-20T12:00:00.000Z'' then Some 1760961600000 else None)"
     1761004800000]
  by (auto simp add: newManager_def createEmptyTelemetryData_def MAX_DATA_AGE_def)

section \<open>Outcomes of a submission\<close>

lemma sendToBackend_result:
  "fst (sendToBackend w d st) =
     (case backend w of
        FetchFailed \<Rightarrow> Inl NetworkFailure
      | HttpResponse code parses \<Rightarrow>
          if \<not> (200 \<le> code \<and> code \<le> 299)
            then Inl (if code = 429 then RateLimitExceeded else HttpError code)
          else if parses then Inr () else Inl BadResponseBody)"
  by (simp add: sendToBackend_def Let_def split: httpResult.splits)

lemma sendToBackend_state:
  "snd (sendToBackend w d st) = st\<lparr>posted := posted st @ [truncatePayload d]\<rparr>"
  by (simp add: sendToBackend_def Let_def split: httpResult.splits)

lemma submitFailed_keeps:
  "telemetryFile (submitFailed st) = telemetryFile st \<and> activeDays (submitFailed st) = activeDays st
   \<and> posted (submitFailed st) = posted st"
  by (simp add: submitFailed_def scheduleRetry_def setTimer_def)

lemma submit_after_send:
  assumes "isEnabled st" and "telemetryFile st = Some d" and "events d \<noteq> []"
  shows "submitTelemetryData w st =
     (case fst (sendToBackend w d st) of
        Inl e \<Rightarrow> submitFailed (st\<lparr>posted := posted st @ [truncatePayload d]\<rparr>)
      | Inr u \<Rightarrow>
          st\<lparr>posted := posted st @ [truncatePayload d], activeDays := {}, telemetryFile := None,
             retryCount := 0, retryTimer := None,
             timers := filter (\<lambda>t. Some (handle t) \<noteq> retryTimer st) (timers st)\<rparr>)"
proof -
  obtain r st1 where s: "sendToBackend w d st = (r, st1)" by (cases "sendToBackend w d st")
  then have st1: "st1 = st\<lparr>posted := posted st @ [truncatePayload d]\<rparr>"
    using sendToBackend_state [of w d st] by simp
  show ?thesis
  proof (cases r)
    case (Inl e)
    then show ?thesis using assms s st1 by (simp add: submitTelemetryData_def)
  next
    case (Inr u)
    have "filter (\<lambda>t. handle t \<noteq> h) ts = filter (\<lambda>t. Some (handle t) \<noteq> Some h) ts" for h and ts :: "timer list"
      by simp
    then show ?thesis using assms s st1 Inr
      by (cases "retryTimer st") (simp_all add: submitTelemetryData_def clearTelemetryData_def clearTimer_def)
  qed
qed

text \<open>
  Telemetry is enabled and the batch file holds at least one event. A response whose
  status is not 2xx (429 among them) makes \<open>sendToBackend\<close> fail, and the batch file
  and the set of active days stay as they are. \<open>sendToBackend\<close> succeeds, and the file
  is deleted, only after a response with a 2xx status (whose body parses as JSON, as
  every answer of the server does). After such a response the file is deleted, the retry
  index is 0, and the retry timer that the manager holds is cleared: the field is
  \<open>null\<close> and the timer is no longer pending.
\<close>

lemma submission_outcomes:
  assumes "isEnabled st" and "telemetryFile st = Some d" and "events d \<noteq> []"
  shows "(\<forall>code parses. backend w = HttpResponse code parses \<and> \<not> (200 \<le> code \<and> code \<le> 299) \<longrightarrow>
            fst (sendToBackend w d st) = Inl (if code = 429 then RateLimitExceeded else HttpError code) \<and>
            telemetryFile (submitTelemetryData w st) = Some d \<and>
            activeDays (submitTelemetryData w st) = activeDays st) \<and>
         (fst (sendToBackend w d st) = Inr () \<or> telemetryFile (submitTelemetryData w st) = None \<longrightarrow>
            (\<exists>code. backend w = HttpResponse code True \<and> 200 \<le> code \<and> code \<le> 299)) \<and>
         (\<forall>code. backend w = HttpResponse code True \<and> 200 \<le> code \<and> code \<le> 299 \<longrightarrow>
            fst (sendToBackend w d st) = Inr () \<and>
            telemetryFile (submitTelemetryData w st) = None \<and>
            retryCount (submitTelemetryData w st) = 0 \<and>
            retryTimer (submitTelemetryData w st) = None \<and>
            timers (submitTelemetryData w st) =
              filter (\<lambda>t. Some (handle t) \<noteq> retryTimer st) (timers st))"
proof -
  note sub = submit_after_send [OF assms, of w]
  have failure: "telemetryFile (submitTelemetryData w st) = Some d \<and>
                 activeDays (submitTelemetryData w st) = activeDays st"
    if "fst (sendToBackend w d st) = Inl e" for e
    using that sub assms(2) submitFailed_keeps [of "st\<lparr>posted := posted st @ [truncatePayload d]\<rparr>"]
    by simp
  have success: "telemetryFile (submitTelemetryData w st) = None \<and>
            retryCount (submitTelemetryData w st) = 0 \<and>
            retryTimer (submitTelemetryData w st) = None \<and>
            timers (submitTelemetryData w st) =
              filter (\<lambda>t. Some (handle t) \<noteq> retryTimer st) (timers st)"
    if "fst (sendToBackend w d st) = Inr ()"
    using that sub by simp
  show ?thesis
  proof (cases "backend w")
    case FetchFailed
    then have "fst (sendToBackend w d st) = Inl NetworkFailure"
      by (simp add: sendToBackend_result)
    with failure [of NetworkFailure] FetchFailed show ?thesis by simp
  next
    case (HttpResponse code parses)
    show ?thesis
    proof (cases "200 \<le> code \<and> code \<le> 299 \<and> parses")
      case True
      then have "fst (sendToBackend w d st) = Inr ()"
        using HttpResponse by (simp add: sendToBackend_result)
      with success HttpResponse True show ?thesis by simp
    next
      case False
      define e where "e = (if \<not> (200 \<le> code \<and> code \<le> 299)
                             then (if code = 429 then RateLimitExceeded else HttpError code)
                           else BadResponseBody)"
      have e: "fst (sendToBackend w d st) = Inl e"
        using HttpResponse False by (auto simp add: sendToBackend_result e_def)
      have e': "\<not> (200 \<le> code \<and> code \<le> 299) \<longrightarrow>
                  e = (if code = 429 then RateLimitExceeded else HttpError code)"
        by (simp add: e_def)
      from e e' failure [OF e] HttpResponse False show ?thesis by auto
    qed
  qed
qed

lemma submission_outcomes_one_timer:
  "telemetryFile (submitTelemetryData \<lparr>connectivity = True, backend = HttpResponse 200 True\<rparr>
      ((newManager True (Some 1000) (Some (busyWeek\<lparr>events := [typicalEvent]\<rparr>)))
         \<lparr>retryCount := 1, retryTimer := Some 0, nextHandle := 1,
          timers := [\<lparr>handle = 0, kind = RetryTimeout, delay = 7200000\<rparr>]\<rparr>)) = None \<and>
   retryCount (submitTelemetryData \<lparr>connectivity = True, backend = HttpResponse 200 True\<rparr>
      ((newManager True (Some 1000) (Some (busyWeek\<lparr>events := [typicalEvent]\<rparr>)))
         \<lparr>retryCount := 1, retryTimer := Some 0, nextHandle := 1,
          timers := [\<lparr>handle = 0, kind = RetryTimeout, delay = 7200000\<rparr>]\<rparr>)) = 0 \<and>
   timers (submitTelemetryData \<lparr>connectivity = True, backend = HttpResponse 200 True\<rparr>
      ((newManager True (Some 1000) (Some (busyWeek\<lparr>events := [typicalEvent]\<rparr>)))
         \<lparr>retryCount := 1, retryTimer := Some 0, nextHandle := 1,
          timers := [\<lparr>handle = 0, kind = RetryTimeout, delay = 7200000\<rparr>]\<rparr>)) = [] \<and>
   telemetryFile (submitTelemetryData \<lparr>connectivity = True, backend = HttpResponse 429 True\<rparr>
      ((newManager True (Some 1000) (Some (busyWeek\<lparr>events := [typicalEvent]\<rparr>)))
         \<lparr>retryCount := 1, retryTimer := Some 0, nextHandle := 1,
          timers := [\<lparr>handle = 0, kind = RetryTimeout, delay = 7200000\<rparr>]\<rparr>)) =
     Some (busyWeek\<lparr>events := [typicalEvent]\<rparr>)"
  using submission_outcomes [of
      "(newManager True (Some 1000) (Some (busyWeek\<lparr>events := [typicalEvent]\<rparr>)))
         \<lparr>retryCount := 1, retryTimer := Some 0, nextHandle := 1,
          timers := [\<lparr>handle = 0, kind = RetryTimeout, delay = 7200000\<rparr>]\<rparr>"
      "busyWeek\<lparr>events := [typicalEvent]\<rparr>"
      "\<lparr>connectivity = True, backend = HttpResponse 200 True\<rparr>"]
    submission_outcomes [of
      "(newManager True (Some 1000) (Some (busyWeek\<lparr>events := [typicalEvent]\<rparr>)))
         \<lparr>retryCount := 1, retryTimer := Some 0, nextHandle := 1,
          timers := [\<lparr>handle = 0, kind = RetryTimeout, delay = 7200000\<rparr>]\<rparr>"
      "busyWeek\<lparr>events := [typicalEvent]\<rparr>"
      "\<lparr>connectivity = True, backend = HttpResponse 429 True\<rparr>"]
  by (auto simp add: newManager_def)

text \<open>
  C6. The field \<open>retryTimer\<close> holds one handle, and \<open>scheduleRetry\<close> overwrites it
  without clearing the timer it held. So a retry timer may be pending that the field
  does not hold, and a successful submission leaves it pending: the file is deleted, the
  retry index is 0 and the field is \<open>null\<close>, but that timer will still fire.
\<close>

theorem untracked_retry_survives_success:
  assumes "isEnabled st" and "telemetryFile st = Some d" and "events d \<noteq> []"
    and "backend w = HttpResponse code True" and "200 \<le> code" and "code \<le> 299"
    and "t \<in> set (timers st)" and "kind t = RetryTimeout"
    and "retryTimer st \<noteq> Some (handle t)"
  shows "telemetryFile (submitTelemetryData w st) = None \<and>
         retryCount (submitTelemetryData w st) = 0 \<and>
         retryTimer (submitTelemetryData w st) = None \<and>
         t \<in> set (timers (submitTelemetryData w st)) \<and> kind t = RetryTimeout"
proof -
  have "fst (sendToBackend w d st) = Inr ()"
    using assms(4-6) by (simp add: sendToBackend_result)
  then have "submitTelemetryData w st =
          st\<lparr>posted := posted st @ [truncatePayload d], activeDays := {}, telemetryFile := None,
             retryCount := 0, retryTimer := None,
             timers := filter (\<lambda>t. Some (handle t) \<noteq> retryTimer st) (timers st)\<rparr>"
    using submit_after_send [OF assms(1-3), of w] by simp
  then show ?thesis using assms(7-9) by auto
qed

lemmas manager_eval =
  manualSubmit_def submitTelemetryData_def sendToBackend_def submitFailed_def scheduleRetry_def
  setTimer_def clearTimer_def clearTelemetryData_def newManager_def RETRY_DELAYS_def
  fireTimer_def retryCallback_def twiceFailed_def backendDown_def backendUp_def Let_def

text \<open>
  Two calls of \<open>manualSubmit\<close> that fail arm two retry timers of 30 minutes, and the
  field holds the second.
\<close>

lemma two_failed_manual_submits:
  "timers twiceFailed =
     [\<lparr>handle = 0, kind = RetryTimeout, delay = 1800000\<rparr>,
      \<lparr>handle = 1, kind = RetryTimeout, delay = 1800000\<rparr>] \<and>
   retryTimer twiceFailed = Some 1 \<and>
   retryCount twiceFailed = 0 \<and>
   telemetryFile twiceFailed = Some (busyWeek\<lparr>events := [typicalEvent]\<rparr>) \<and>
   isEnabled twiceFailed"
  by (simp add: manager_eval)

text \<open>
  A third call of \<open>manualSubmit\<close>, answered 200, deletes the file and clears the second
  timer; the first is still pending, and when it fires it finds no file and arms a retry
  of two hours.
\<close>

theorem untracked_retry_survives_success_witness:
  "timers twiceFailed =
     [\<lparr>handle = 0, kind = RetryTimeout, delay = 1800000\<rparr>,
      \<lparr>handle = 1, kind = RetryTimeout, delay = 1800000\<rparr>] \<and>
   retryTimer twiceFailed = Some 1 \<and>
   telemetryFile (manualSubmit backendUp twiceFailed) = None \<and>
   retryCount (manualSubmit backendUp twiceFailed) = 0 \<and>
   retryTimer (manualSubmit backendUp twiceFailed) = None \<and>
   timers (manualSubmit backendUp twiceFailed) =
     [\<lparr>handle = 0, kind = RetryTimeout, delay = 1800000\<rparr>] \<and>
   timers (fireTimer backendUp 0 (manualSubmit backendUp twiceFailed)) =
     [\<lparr>handle = 2, kind = RetryTimeout, delay = 7200000\<rparr>] \<and>
   retryCount (fireTimer backendUp 0 (manualSubmit backendUp twiceFailed)) = 1"
proof -
  let ?t = "\<lparr>handle = 0, kind = RetryTimeout, delay = 1800000\<rparr>"
  note s = two_failed_manual_submits
  have en: "isEnabled twiceFailed"
    and f: "telemetryFile twiceFailed = Some (busyWeek\<lparr>events := [typicalEvent]\<rparr>)"
    and ne: "events (busyWeek\<lparr>events := [typicalEvent]\<rparr>) \<noteq> []"
    and b: "backend backendUp = HttpResponse 200 True"
    and t: "?t \<in> set (timers twiceFailed)" and k: "kind ?t = RetryTimeout"
    and r: "retryTimer twiceFailed \<noteq> Some (handle ?t)"
    using s by (simp_all add: backendUp_def)
  have m: "manualSubmit backendUp twiceFailed = submitTelemetryData backendUp twiceFailed"
    using en by (simp add: manualSubmit_def)
  have after: "telemetryFile (manualSubmit backendUp twiceFailed) = None"
    "retryCount (manualSubmit backendUp twiceFailed) = 0"
    "retryTimer (manualSubmit backendUp twiceFailed) = None"
    "?t \<in> set (timers (manualSubmit backendUp twiceFailed))"
    using untracked_retry_survives_success [OF en f ne b _ _ t k r] m by simp_all
  have all: "timers (manualSubmit backendUp twiceFailed) = [?t]"
    by (simp add: manager_eval)
  have fire: "timers (fireTimer backendUp 0 (manualSubmit backendUp twiceFailed)) =
                [\<lparr>handle = 2, kind = RetryTimeout, delay = 7200000\<rparr>]"
    "retryCount (fireTimer backendUp 0 (manualSubmit backendUp twiceFailed)) = 1"
    by (simp_all add: manager_eval)
  from s after all fire show ?thesis by simp
qed

section \<open>The size of a payload\<close>

lemma length_commaSep_replicate:
  "length (commaSep (replicate (Suc n) x)) = Suc n * length x + n"
  by (induction n) simp_all

lemma length_commaSep_replicate_pos:
  "0 < n \<Longrightarrow> length (commaSep (replicate n x)) = n * length x + (n - 1)"
  using length_commaSep_replicate [of "n - 1" x] by simp

lemma typicalEvent_size: "length (stringify (eventJson typicalEvent)) = 180"
  by (simp add: typicalEvent_def eventJson_def quote_def escapeChar_def)

lemma busyWeek_size: "length (stringify (dataJson busyWeek)) = 724296"
  by (simp add: busyWeek_def createEmptyTelemetryData_def dataJson_def statsJson_def
     showInt_def showNat.simps hexDigit_def quote_def escapeChar_def typicalEvent_size
     length_commaSep_replicate_pos)

text \<open>
  C7. A batch whose serialization is longer than the 900000 characters of the client's
  margin is posted with its last 500 events and its counters unchanged; a shorter one is
  posted as it is. The server's validation refuses every body longer than 500000
  characters: the margin of the client is above this ceiling, not under it, and a batch
  between the two (the 4000 events of \<open>busyWeek\<close> take 724296 characters) is posted
  whole and refused for its size.
\<close>

theorem payload_size_limits:
  "(900000 < length (stringify (dataJson d)) \<longrightarrow>
      truncatePayload d = d\<lparr>events := drop (length (events d) - 500) (events d)\<rparr> \<and>
      length (events (truncatePayload d)) \<le> 500 \<and>
      aggregatedStats (truncatePayload d) = aggregatedStats d) \<and>
   (length (stringify (dataJson d)) \<le> 900000 \<longrightarrow> truncatePayload d = d) \<and>
   (500000 < length (stringify (dataJson d)) \<longrightarrow>
      validateTelemetryData (dataJson d) = Rejected PayloadTooLarge)"
  by (auto simp add: truncatePayload_def validateTelemetryData_def)

theorem payload_size_limits_witness:
  "500000 < length (stringify (dataJson busyWeek)) \<and>
   length (stringify (dataJson busyWeek)) \<le> 900000 \<and>
   truncatePayload busyWeek = busyWeek \<and>
   validateTelemetryData (dataJson busyWeek) = Rejected PayloadTooLarge"
  using payload_size_limits [of busyWeek] by (simp add: busyWeek_size)

section \<open>What the server stores\<close>

lemma map_of_setProp: "map_of (setProp k v kvs) = (map_of kvs)(k \<mapsto> v)"
  by (induction kvs) (auto simp: fun_eq_iff)

lemma keys_setProp: "fst ` set (setProp k v kvs) = insert k (fst ` set kvs)"
  by (induction kvs) auto


lemma keys_deleteProp: "fst ` set (deleteProp k kvs) = fst ` set kvs - {k}"
  unfolding deleteProp_def by auto

lemma handler_accepts:
  assumes "telemetryHandler env req fs = (res, fs')" and "status res = 200"
  shows "\<exists>data sanitized.
           isJson req \<and> validateTelemetryData (body req) = Passed data \<and>
           sanitizeTelemetryData data = Inr sanitized \<and>
           fs' = fs(generateFilename req \<mapsto> JObj
                  (setProp ''ipHash'' (JStr (hashAnonymousId (saltedAddress env (clientIP req))))
                    (setProp ''serverVersion'' (JStr (orDefault (SERVER_VERSION env) ''1.0.0''))
                      (setProp ''receivedAt'' (JStr (nowIso req)) sanitized))))"
  using assms
  by (auto simp: telemetryHandler_def internalError_def Let_def
           split: if_splits checked.splits sum.splits)

lemma validate_passed:
  assumes "validateTelemetryData b = Passed data"
  shows "\<exists>kvs evs evs1. b = JObj kvs \<and> map_of kvs ''events'' = Some (JArr evs) \<and>
           validateEvents evs = Passed evs1 \<and> data = JObj (setProp ''events'' (JArr evs1) kvs)"
  using assms
  by (auto simp: validateTelemetryData_def
           split: if_splits sum.splits option.splits json.splits checked.splits)






lemma sanitize_ok:
  assumes "sanitizeTelemetryData data = Inr sanitized"
  shows "\<exists>kvs evs evs2. data = JObj kvs \<and> map_of kvs ''events'' = Some (JArr evs) \<and>
           sanitizeEvents evs = Inr evs2 \<and>
           sanitized = deleteProp ''sessionId'' (setProp ''events'' (JArr evs2) kvs)"
  using assms
  by (auto simp: sanitizeTelemetryData_def split: json.splits option.splits sum.splits)








lemmas handler_eval =
  telemetryHandler_def validateTelemetryData_def sanitizeTelemetryData_def
  testRequest_def testData_def testEvent_def requiredFields_def validEventTypes_def
  sanitizeInput_def includesType_def deleteProp_def generateFilename_def eventsLength_def
  clientIP_def saltedAddress_def internalError_def errorBody_def Let_def
  quote_def escapeChar_def showInt_def showNat.simps hexDigit_def

lemma test_request_accepted:
  "telemetryHandler \<lparr>IP_SALT = None, SERVER_VERSION = None\<rparr>
     (testRequest (testData [testEvent ''thought_created'' ''test-user-123'',
                             testEvent ''graph_opened'' ''test-user-123'']))
     Map.empty =
   (\<lparr>status = 200,
     payload = JObj [(''success'', JBool True),
                     (''message'', JStr ''Telemetry data received successfully''),
                     (''eventsProcessed'', JNum 2),
                     (''fileId'', JStr ''telemetry_2025-10-01_a1b2c3d4'')]\<rparr>,
    [''telemetry_2025-10-01_a1b2c3d4.json'' \<mapsto> JObj
      [(''extensionVersion'', JStr ''1.0.0''),
       (''vscodeVersion'', JStr ''1.80.0''),
       (''platform'', JStr ''Windows''),
       (''weekStart'', JStr ''2025-10-01''),
       (''events'', JArr
          [JObj [(''eventType'', JStr ''thought_created''),
                 (''timestamp'', JStr ''2025-10-01T12:00:00.000Z''),
                 (''anonymousId'', JStr (hashAnonymousId ''test-user-123''))],
           JObj [(''eventType'', JStr ''graph_opened''),
                 (''timestamp'', JStr ''2025-10-01T12:00:00.000Z''),
                 (''anonymousId'', JStr (hashAnonymousId ''test-user-123''))]]),
       (''aggregatedStats'', JObj [(''totalThoughts'', JNum 5), (''totalGraphOpens'', JNum 2)]),
       (''receivedAt'', JStr ''2025-10-01T12:00:00.000Z''),
       (''serverVersion'', JStr ''1.0.0''),
       (''ipHash'', JStr (hashAnonymousId ''203.0.113.7undefined''))]])"
  by (simp add: handler_eval)








section \<open>What the server refuses\<close>

lemma validateEvent_never_throws:
  assumes "ev \<noteq> JNull"
  shows "validateEvent ev \<noteq> Threw e"
  using assms by (cases ev) (auto simp: Let_def split: option.splits)

lemma validateEvent_rejects:
  assumes "ev \<noteq> JNull" and "lacksField ev \<or> typeRejected ev"
  shows "\<exists>ve. validateEvent ev = Rejected ve"
  using assms
  by (cases ev)
     (auto simp: lacksField_def typeRejected_def getProp_def Let_def split: option.splits)

lemma validateEvents_rejects:
  assumes "JNull \<notin> set evs" and "\<exists>ev \<in> set evs. lacksField ev \<or> typeRejected ev"
  shows "\<exists>ve. validateEvents evs = Rejected ve"
  using assms
proof (induction evs)
  case Nil
  then show ?case by simp
next
  case (Cons ev evs)
  then have nn: "ev \<noteq> JNull" by auto
  show ?case
  proof (cases "validateEvent ev")
    case (Threw e)
    with validateEvent_never_throws [OF nn, of e] show ?thesis by simp
  next
    case (Rejected ve)
    then show ?thesis by simp
  next
    case (Passed ev')
    with validateEvent_rejects [OF nn] have "\<not> (lacksField ev \<or> typeRejected ev)" by auto
    with Cons.prems have "JNull \<notin> set evs" "\<exists>ev \<in> set evs. lacksField ev \<or> typeRejected ev"
      by auto
    then obtain ve where "validateEvents evs = Rejected ve" using Cons.IH by blast
    with Passed show ?thesis by simp
  qed
qed

lemma firstMissing_object:
  "firstMissing fs (JObj kvs) = Inr (find (\<lambda>f. f \<notin> fst ` set kvs) fs)"
  by (induction fs) auto

lemma firstMissing_array:
  "firstMissing fs (JArr xs) = Inr (case fs of [] \<Rightarrow> None | f # _ \<Rightarrow> Some f)"
  by (cases fs) auto

lemma validate_array: "\<exists>ve. validateTelemetryData (JArr xs) = Rejected ve"
  by (simp add: validateTelemetryData_def firstMissing_array requiredFields_def)

lemma validate_object_rejects:
  assumes "(\<exists>field \<in> set requiredFields. field \<notin> fst ` set kvs) \<or>
           (\<forall>evs. map_of kvs ''events'' \<noteq> Some (JArr evs)) \<or>
           (\<exists>evs. map_of kvs ''events'' = Some (JArr evs) \<and>
              (length evs > 1000 \<or>
               (JNull \<notin> set evs \<and> (\<exists>ev \<in> set evs. lacksField ev \<or> typeRejected ev))))"
  shows "\<exists>ve. validateTelemetryData (JObj kvs) = Rejected ve"
proof (cases "length (stringify (JObj kvs)) > 500000")
  case True
  then show ?thesis by (simp add: validateTelemetryData_def)
next
  case small: False
  show ?thesis
  proof (cases "find (\<lambda>f. f \<notin> fst ` set kvs) requiredFields")
    case (Some f)
    then show ?thesis using small by (simp add: validateTelemetryData_def firstMissing_object)
  next
    case None
    then have all: "\<not> (\<exists>field \<in> set requiredFields. field \<notin> fst ` set kvs)"
      by (simp add: find_None_iff)
    show ?thesis
    proof (cases "\<exists>evs. map_of kvs ''events'' = Some (JArr evs)")
      case False
      then show ?thesis using small None
        by (auto simp: validateTelemetryData_def firstMissing_object
                 split: option.splits json.splits)
    next
      case True
      then obtain evs where evs: "map_of kvs ''events'' = Some (JArr evs)" by blast
      show ?thesis
      proof (cases "length evs > 1000")
        case True
        then show ?thesis using small None evs
          by (simp add: validateTelemetryData_def firstMissing_object)
      next
        case False
        with assms all evs have "JNull \<notin> set evs"
          and "\<exists>ev \<in> set evs. lacksField ev \<or> typeRejected ev" by auto
        then obtain ve where "validateEvents evs = Rejected ve"
          using validateEvents_rejects by blast
        then show ?thesis using small None evs False
          by (simp add: validateTelemetryData_def firstMissing_object)
      qed
    qed
  qed
qed

text \<open>
  C2, as it holds. A request of content type JSON whose body is an array, or an object
  that misses one of the seven required properties, or whose \<open>events\<close> is not an
  array or has more than 1000 elements, or (no element of \<open>events\<close> being
  \<open>null\<close>) has an event that lacks \<open>eventType\<close>, \<open>timestamp\<close> or
  \<open>anonymousId\<close> or whose \<open>eventType\<close>, after \<open>sanitizeInput\<close> has removed the
  characters \<open><\<close>, \<open>>\<close>, \<open>"\<close>, \<open>'\<close>, \<open>&\<close> and cut it to 1000 characters, is
  not one of the five allowed names: the handler answers 400 with the body
  \<open>Invalid data format\<close> and writes no file, whatever the other events are. Behind
  the rate limiter the same holds for every request that the limiter lets through.
\<close>

theorem invalid_batch_rejected:
  assumes "isJson req"
    and "(\<exists>xs. body req = JArr xs) \<or>
         (\<exists>kvs. body req = JObj kvs \<and>
            ((\<exists>field \<in> set requiredFields. field \<notin> fst ` set kvs) \<or>
             (\<forall>evs. map_of kvs ''events'' \<noteq> Some (JArr evs)) \<or>
             (\<exists>evs. map_of kvs ''events'' = Some (JArr evs) \<and>
                (length evs > 1000 \<or>
                 (JNull \<notin> set evs \<and> (\<exists>ev \<in> set evs. lacksField ev \<or> typeRejected ev))))))"
  shows "telemetryHandler env req fs =
           (\<lparr>status = 400, payload = errorBody ''Invalid data format''\<rparr>, fs) \<and>
         (fst (rateLimit (clientIP req) (nowMs req) (requestCounts srv)) = None \<longrightarrow>
            fst (postTelemetry env req srv) =
              \<lparr>status = 400, payload = errorBody ''Invalid data format''\<rparr> \<and>
            files (snd (postTelemetry env req srv)) = files srv)"
proof -
  have "\<exists>ve. validateTelemetryData (body req) = Rejected ve"
    using assms(2) validate_array validate_object_rejects by metis
  then have h: "telemetryHandler env req fs =
           (\<lparr>status = 400, payload = errorBody ''Invalid data format''\<rparr>, fs)" for fs
    using assms(1) by (auto simp: telemetryHandler_def)
  then show ?thesis
    by (auto simp: postTelemetry_def split: prod.splits option.splits)
qed

text \<open>One valid and one invalid event: nothing is stored.\<close>

theorem invalid_batch_rejected_witness:
  "telemetryHandler \<lparr>IP_SALT = None, SERVER_VERSION = None\<rparr>
     (testRequest (testData [testEvent ''thought_created'' ''test-user-123'',
                             testEvent ''page_viewed'' ''test-user-123'']))
     Map.empty =
   (\<lparr>status = 400, payload = errorBody ''Invalid data format''\<rparr>, Map.empty)"
proof -
  let ?req = "testRequest (testData [testEvent ''thought_created'' ''test-user-123'',
                                     testEvent ''page_viewed'' ''test-user-123''])"
  have h1: "isJson ?req" by (simp add: testRequest_def)
  have "typeRejected (testEvent ''page_viewed'' ''test-user-123'')"
    by (simp add: typeRejected_def testEvent_def getProp_def sanitizeInput_def includesType_def
                  validEventTypes_def)
  then have h2: "(\<exists>xs. body ?req = JArr xs) \<or>
         (\<exists>kvs. body ?req = JObj kvs \<and>
            ((\<exists>field \<in> set requiredFields. field \<notin> fst ` set kvs) \<or>
             (\<forall>evs. map_of kvs ''events'' \<noteq> Some (JArr evs)) \<or>
             (\<exists>evs. map_of kvs ''events'' = Some (JArr evs) \<and>
                (length evs > 1000 \<or>
                 (JNull \<notin> set evs \<and> (\<exists>ev \<in> set evs. lacksField ev \<or> typeRejected ev))))))"
    by (simp add: testRequest_def testData_def testEvent_def)
  from invalid_batch_rejected [OF h1 h2] show ?thesis by simp
qed

text \<open>
  C2, as it is stated, fails: the allowed names are compared after \<open>sanitizeInput\<close>,
  so that an event of the type \<open>thought_created&\<close>, which is none of the five names,
  is accepted and stored as \<open>thought_created\<close>.
\<close>

theorem unlisted_event_type_accepted:
  "typeOutsideWhitelist (testEvent ''thought_created&'' ''test-user-123'') \<and>
   telemetryHandler \<lparr>IP_SALT = None, SERVER_VERSION = None\<rparr>
     (testRequest (testData [testEvent ''thought_created&'' ''test-user-123'']))
     Map.empty =
   (\<lparr>status = 200,
     payload = JObj [(''success'', JBool True),
                     (''message'', JStr ''Telemetry data received successfully''),
                     (''eventsProcessed'', JNum 1),
                     (''fileId'', JStr ''telemetry_2025-10-01_a1b2c3d4'')]\<rparr>,
    [''telemetry_2025-10-01_a1b2c3d4.json'' \<mapsto> JObj
      [(''extensionVersion'', JStr ''1.0.0''),
       (''vscodeVersion'', JStr ''1.80.0''),
       (''platform'', JStr ''Windows''),
       (''weekStart'', JStr ''2025-10-01''),
       (''events'', JArr
          [JObj [(''eventType'', JStr ''thought_created''),
                 (''timestamp'', JStr ''2025-10-01T12:00:00.000Z''),
                 (''anonymousId'', JStr (hashAnonymousId ''test-user-123''))]]),
       (''aggregatedStats'', JObj [(''totalThoughts'', JNum 5), (''totalGraphOpens'', JNum 2)]),
       (''receivedAt'', JStr ''2025-10-01T12:00:00.000Z''),
       (''serverVersion'', JStr ''1.0.0''),
       (''ipHash'', JStr (hashAnonymousId ''203.0.113.7undefined''))]])"
  by (simp add: handler_eval typeOutsideWhitelist_def getProp_def)

text \<open>An element \<open>null\<close> among the events ends in the answer 500, not 400.\<close>

lemma null_event_is_internal_error:
  "telemetryHandler \<lparr>IP_SALT = None, SERVER_VERSION = None\<rparr>
     (testRequest (testData [JNull])) Map.empty =
   (\<lparr>status = 500, payload = errorBody ''Internal server error''\<rparr>, Map.empty)"
  by (simp add: handler_eval)

section \<open>The hash of the caller's address\<close>

lemma orDefault_nonempty: "d \<noteq> [] \<Longrightarrow> orDefault x d \<noteq> []"
  by (cases x) auto

lemma clientIP_nonempty: "clientIP req \<noteq> []"
  by (simp add: clientIP_def orDefault_nonempty)

lemma saltedAddress_concat:
  "saltedAddress env (clientIP req) =
     clientIP req @ (case IP_SALT env of None \<Rightarrow> ''undefined'' | Some salt \<Rightarrow> salt)"
  using clientIP_nonempty [of req] by (simp add: saltedAddress_def)

text \<open>
  C8. Whenever the handler answers 200, the stored record holds under \<open>ipHash\<close> the
  hash of the caller's address followed by the value of \<open>IP_SALT\<close>, and by the nine
  characters \<open>undefined\<close> when the variable is absent: the address is never empty, so
  the left side of \<open>||\<close> is never empty and \<open>default-salt\<close> is never hashed.
  The properties of the record are those of the body without \<open>sessionId\<close>, and
  \<open>receivedAt\<close>, \<open>serverVersion\<close> and \<open>ipHash\<close>: the address itself is not added.
\<close>

theorem address_hash_input:
  assumes "telemetryHandler env req fs = (res, fs')" and "status res = 200"
  shows "clientIP req \<noteq> [] \<and>
         (\<exists>kvs stored. body req = JObj kvs \<and>
            fs' (generateFilename req) = Some (JObj stored) \<and>
            map_of stored ''ipHash'' =
              Some (JStr (hashAnonymousId
                (clientIP req @ (case IP_SALT env of None \<Rightarrow> ''undefined'' | Some salt \<Rightarrow> salt)))) \<and>
            fst ` set stored =
              (fst ` set kvs - {''sessionId''}) \<union> {''receivedAt'', ''serverVersion'', ''ipHash''})"
proof -
  from handler_accepts [OF assms] obtain data sanitized where
    v: "validateTelemetryData (body req) = Passed data"
    and s: "sanitizeTelemetryData data = Inr sanitized"
    and fs': "fs' = fs(generateFilename req \<mapsto> JObj
                  (setProp ''ipHash'' (JStr (hashAnonymousId (saltedAddress env (clientIP req))))
                    (setProp ''serverVersion'' (JStr (orDefault (SERVER_VERSION env) ''1.0.0''))
                      (setProp ''receivedAt'' (JStr (nowIso req)) sanitized))))"
    by blast
  from validate_passed [OF v] obtain kvs evs evs1 where
    b: "body req = JObj kvs" and e: "map_of kvs ''events'' = Some (JArr evs)"
    and d: "data = JObj (setProp ''events'' (JArr evs1) kvs)"
    by blast
  from sanitize_ok [OF s] d obtain evs2 where
    sd: "sanitized = deleteProp ''sessionId''
               (setProp ''events'' (JArr evs2) (setProp ''events'' (JArr evs1) kvs))"
    by auto
  from e have "''events'' \<in> fst ` set kvs"
    by (metis map_of_eq_None_iff option.distinct(1))
  then have keys: "fst ` set sanitized = fst ` set kvs - {''sessionId''}"
    unfolding sd by (auto simp: keys_setProp keys_deleteProp)
  show ?thesis
    using clientIP_nonempty [of req] b keys
    by (auto simp: fs' map_of_setProp keys_setProp saltedAddress_concat)
qed

text \<open>Two more digests.\<close>

lemma hash_with_undefined: "hashAnonymousId ''203.0.113.7undefined'' = ''2b9acce658732d24''"
  by code_simp

lemma hash_with_default_salt: "hashAnonymousId ''203.0.113.7default-salt'' = ''61fd3eae09377d3b''"
  by code_simp

text \<open>
  The request of the test script, with no \<open>IP_SALT\<close> in the environment: the stored
  hash is that of \<open>203.0.113.7undefined\<close>, not that of \<open>203.0.113.7default-salt\<close>.
\<close>

theorem address_hash_input_witness:
  "status (fst (telemetryHandler \<lparr>IP_SALT = None, SERVER_VERSION = None\<rparr>
     (testRequest (testData [testEvent ''thought_created'' ''test-user-123'',
                             testEvent ''graph_opened'' ''test-user-123'']))
     Map.empty)) = 200 \<and>
   clientIP (testRequest (testData [testEvent ''thought_created'' ''test-user-123'',
                                    testEvent ''graph_opened'' ''test-user-123''])) = ''203.0.113.7'' \<and>
   (\<exists>stored.
      snd (telemetryHandler \<lparr>IP_SALT = None, SERVER_VERSION = None\<rparr>
        (testRequest (testData [testEvent ''thought_created'' ''test-user-123'',
                                testEvent ''graph_opened'' ''test-user-123'']))
        Map.empty) ''telemetry_2025-10-01_a1b2c3d4.json'' = Some (JObj stored) \<and>
      map_of stored ''ipHash'' = Some (JStr (hashAnonymousId ''203.0.113.7undefined'')) \<and>
      map_of stored ''ipHash'' = Some (JStr ''2b9acce658732d24'') \<and>
      map_of stored ''ipHash'' \<noteq> Some (JStr (hashAnonymousId ''203.0.113.7default-salt'')))"
proof -
  let ?env = "\<lparr>IP_SALT = None, SERVER_VERSION = None\<rparr>"
  let ?req = "testRequest (testData [testEvent ''thought_created'' ''test-user-123'',
                                     testEvent ''graph_opened'' ''test-user-123''])"
  let ?out = "telemetryHandler ?env ?req Map.empty"
  have ok: "status (fst ?out) = 200" by (simp add: test_request_accepted)
  have pair: "?out = (fst ?out, snd ?out)" by simp
  have ip: "clientIP ?req = ''203.0.113.7''" by (simp add: clientIP_def testRequest_def)
  have name: "generateFilename ?req = ''telemetry_2025-10-01_a1b2c3d4.json''"
    by (simp add: generateFilename_def testRequest_def)
  from address_hash_input [OF pair ok] obtain kvs stored where
    "snd ?out (generateFilename ?req) = Some (JObj stored)"
    "map_of stored ''ipHash'' = Some (JStr (hashAnonymousId (clientIP ?req @ ''undefined'')))"
    by auto
  then show ?thesis
    using ok ip name by (auto simp: hash_with_undefined hash_with_default_salt)
qed

end
